theory Spec2Isabelle
  imports Complex_Main "HOL-Library.Word" "HOL-Library.Signed_Division"
begin

section \<open>Error envelope (package wgapi, the Error type and its constructors)\<close>

text \<open>
  The Go struct \<^verbatim>\<open>Error{Code int; Message string; Data interface{}}\<close>.
  \<open>Code\<close> is a Go \<^verbatim>\<open>int\<close>; no arithmetic is ever done on it, so it is an
  \<open>int\<close> here. \<open>Data\<close> is an opaque optional payload (\<^verbatim>\<open>nil\<close> is \<open>None\<close>).
\<close>

record Error =
  Code :: int
  Message :: string
  Data :: "string option"

definition ParseError :: "string \<Rightarrow> string option \<Rightarrow> Error" where
  "ParseError message data = \<lparr>Code = - 32700, Message = message, Data = data\<rparr>"

definition InvalidRequest :: "string \<Rightarrow> string option \<Rightarrow> Error" where
  "InvalidRequest message data = \<lparr>Code = - 32600, Message = message, Data = data\<rparr>"

definition MethodNotFound :: "string \<Rightarrow> string option \<Rightarrow> Error" where
  "MethodNotFound message data = \<lparr>Code = - 32601, Message = message, Data = data\<rparr>"

definition InvalidParams :: "string \<Rightarrow> string option \<Rightarrow> Error" where
  "InvalidParams message data = \<lparr>Code = - 32602, Message = message, Data = data\<rparr>"

definition InternalError :: "string \<Rightarrow> string option \<Rightarrow> Error" where
  "InternalError message data = \<lparr>Code = - 32603, Message = message, Data = data\<rparr>"

definition ServerError :: "int \<Rightarrow> string \<Rightarrow> string option \<Rightarrow> Error" where
  "ServerError code message data = \<lparr>Code = code, Message = message, Data = data\<rparr>"

text \<open>
  A value of Go's \<^verbatim>\<open>error\<close> interface as this package produces it: an \<^verbatim>\<open>Error\<close>
  of the envelope, an error of a library with its text (\<^verbatim>\<open>err.Error()\<close>), or a
  \<^verbatim>\<open>fmt.Errorf("...: %w", err)\<close> wrapping with its prefix. \<open>Panic\<close> stands for a
  run-time panic, which ends the call.
\<close>

datatype go_error =
  RpcError Error
| LibError string
| Errorf string go_error
| Panic string

section \<open>Library types (wgtypes, net, time)\<close>

text \<open>
  \<^verbatim>\<open>wgtypes.Key\<close> is a \<^verbatim>\<open>[32]byte\<close>; its zero value \<^verbatim>\<open>wgtypes.Key{}\<close> is 32 zero bytes.
  A \<^verbatim>\<open>time.Time\<close> is an instant counted in nanoseconds, a \<^verbatim>\<open>time.Duration\<close> an
  \<^verbatim>\<open>int64\<close> count of nanoseconds.
\<close>

type_synonym Key = "8 word list"
type_synonym Time = int
type_synonym Duration = int

definition zeroKey :: Key where
  "zeroKey = replicate 32 0"

record UDPAddr =
  UDPAddr_IP :: "8 word list"
  UDPAddr_Port :: int
  UDPAddr_Zone :: string

record IPNet =
  IPNet_IP :: "8 word list"
  IPNet_Mask :: "8 word list"

record wgPeer =
  wgPeer_PublicKey :: Key
  wgPeer_PresharedKey :: Key
  wgPeer_Endpoint :: "UDPAddr option"
  wgPeer_PersistentKeepaliveInterval :: Duration
  wgPeer_LastHandshakeTime :: Time
  wgPeer_ReceiveBytes :: int
  wgPeer_TransmitBytes :: int
  wgPeer_AllowedIPs :: "IPNet list"
  wgPeer_ProtocolVersion :: int

record wgDevice =
  wgDevice_Name :: string
  wgDevice_Type :: int
  wgDevice_PrivateKey :: Key
  wgDevice_PublicKey :: Key
  wgDevice_ListenPort :: int
  wgDevice_FirewallMark :: int
  wgDevice_Peers :: "wgPeer list"

record PeerConfig =
  PeerConfig_PublicKey :: Key
  PeerConfig_Remove :: bool
  PeerConfig_UpdateOnly :: bool
  PeerConfig_PresharedKey :: "Key option"
  PeerConfig_Endpoint :: "UDPAddr option"
  PeerConfig_PersistentKeepaliveInterval :: "Duration option"
  PeerConfig_ReplaceAllowedIPs :: bool
  PeerConfig_AllowedIPs :: "IPNet list"

record Config =
  Config_PrivateKey :: "Key option"
  Config_ListenPort :: "int option"
  Config_FirewallMark :: "int option"
  Config_ReplacePeers :: bool
  Config_Peers :: "PeerConfig list"

text \<open>
  The libraries and the operating system behind them are parameters of the model.
  \<open>'os\<close> is the state of the operating system that the \<^verbatim>\<open>wgctrl.Client\<close> handle
  reaches: the WireGuard devices and name resolution. Every library call that can
  fail returns the text of its error on the left.
  \<open>wg_ConfigureDevice\<close> is the only operation that changes the state.
  \<open>float64\<close> rounds an exact result to a \<^verbatim>\<open>float64\<close>.
\<close>

record 'os Ext =
  wgctrl_New :: "'os \<Rightarrow> string option"
  wg_Device :: "'os \<Rightarrow> string \<Rightarrow> string + wgDevice"
  wg_ConfigureDevice :: "'os \<Rightarrow> string \<Rightarrow> Config \<Rightarrow> string option \<times> 'os"
  ParseKey :: "string \<Rightarrow> string + Key"
  Key_String :: "Key \<Rightarrow> string"
  ResolveUDPAddr :: "'os \<Rightarrow> string \<Rightarrow> string + UDPAddr"
  UDPAddr_String :: "UDPAddr option \<Rightarrow> string"
  ParseDuration :: "string \<Rightarrow> string + Duration"
  Duration_String :: "Duration \<Rightarrow> string"
  ParseCIDR :: "string \<Rightarrow> string + IPNet"
  IPNet_String :: "IPNet \<Rightarrow> string"
  Sprintf_q :: "string \<Rightarrow> string"
  float64 :: "rat \<Rightarrow> rat"

subsection \<open>Package time\<close>

definition Minute :: Duration where
  "Minute = 60 * 1000000000"

definition minDuration :: Duration where
  "minDuration = - (2 ^ 63)"

definition maxDuration :: Duration where
  "maxDuration = 2 ^ 63 - 1"

text \<open>\<^verbatim>\<open>t.Sub(u)\<close>: the difference, saturated at the ends of \<^verbatim>\<open>int64\<close>.\<close>

definition time_Sub :: "Time \<Rightarrow> Time \<Rightarrow> Duration" where
  "time_Sub t u =
     (let d = t - u in
      if d < minDuration then minDuration
      else if maxDuration < d then maxDuration
      else d)"

text \<open>\<^verbatim>\<open>time.Since(t)\<close> is \<^verbatim>\<open>time.Now().Sub(t)\<close>; \<open>now\<close> is the reading of the clock.\<close>

definition time_Since :: "Time \<Rightarrow> Time \<Rightarrow> Duration" where
  "time_Since now t = time_Sub now t"

text \<open>
  \<^verbatim>\<open>func (d Duration) Minutes() float64 {
      min := d / Minute; nsec := d % Minute
      return float64(min) + float64(nsec)/(60*1e9) }\<close>
  Go's integer \<^verbatim>\<open>/\<close> and \<^verbatim>\<open>%\<close> truncate towards zero (\<open>sdiv\<close>, \<open>smod\<close>); each
  conversion and each floating-point operation rounds its exact result.
\<close>

definition Minutes :: "'os Ext \<Rightarrow> Duration \<Rightarrow> rat" where
  "Minutes X d =
     (let min = d sdiv Minute;
          nsec = d smod Minute
      in float64 X (float64 X (of_int min)
                    + float64 X (float64 X (of_int nsec) / (60 * 1000000000))))"

text \<open>
  The numbers of the \<^verbatim>\<open>float64\<close> format (IEEE 754 binary64): a significand of at
  most 53 bits times a power of two between \<open>2 ^ - 1074\<close> and \<open>2 ^ 971\<close>.
  What the theorems below ask of the rounding \<open>float64 X\<close>: it is monotone and
  leaves the numbers of the format as they are, as every IEEE rounding mode does.
\<close>

definition is_float64 :: "rat \<Rightarrow> bool" where
  "is_float64 x \<longleftrightarrow>
     (\<exists>(m::int) (a::nat) (b::nat).
        \<bar>m\<bar> < 2 ^ 53 \<and> a \<le> 971 \<and> b \<le> 1074 \<and> x = of_int m * 2 ^ a / 2 ^ b)"

definition float64_rounding :: "(rat \<Rightarrow> rat) \<Rightarrow> bool" where
  "float64_rounding fl \<longleftrightarrow>
     (\<forall>x y. x \<le> y \<longrightarrow> fl x \<le> fl y) \<and> (\<forall>x. is_float64 x \<longrightarrow> fl x = x)"

subsection \<open>Package sort\<close>

text \<open>
  \<^verbatim>\<open>sort.Slice(data, less)\<close>. The library sorts a short slice (at most 12 elements
  since Go 1.19) by insertion:
  \<^verbatim>\<open>for i := a+1; i < b; i++ { for j := i; j > a && less(j, j-1); j-- { swap(j, j-1) } }\<close>
  \<open>insert_back lessf x ys\<close> is the inner loop: \<open>x\<close>, placed after the sorted prefix
  \<open>ys\<close>, moves left while it is less than its left neighbour. A longer slice is
  ordered by the same comparison, where elements that compare equal may come out in
  another order; what is proved below of the result (its elements, its length, its
  order) does not depend on the order of equal elements.
\<close>

function insert_back :: "('a \<Rightarrow> 'a \<Rightarrow> bool) \<Rightarrow> 'a \<Rightarrow> 'a list \<Rightarrow> 'a list" where
  "insert_back lessf x ys =
     (if ys \<noteq> [] \<and> lessf x (last ys)
      then insert_back lessf x (butlast ys) @ [last ys]
      else ys @ [x])"
  by pat_completeness auto
termination
  by (relation "measure (\<lambda>(lessf, x, ys). length ys)") auto

declare insert_back.simps [simp del]

definition sort_Slice :: "'a list \<Rightarrow> ('a \<Rightarrow> 'a \<Rightarrow> bool) \<Rightarrow> 'a list" where
  "sort_Slice data lessf = foldl (\<lambda>sorted x. insert_back lessf x sorted) [] data"

section \<open>Package wgapi: the server\<close>

text \<open>
  Modelled from the spec: the declarations of the request and response types of the
  package (\<^verbatim>\<open>Peer\<close>, \<^verbatim>\<open>ListPeersResponse\<close>, \<^verbatim>\<open>GetPeerRequest\<close>,
  \<^verbatim>\<open>GetPeerResponse\<close>, \<^verbatim>\<open>AddPeerRequest\<close>, \<^verbatim>\<open>RemovePeerRequest\<close>,
  \<^verbatim>\<open>CfgPeerResponse\<close>) are not among the sources. The spec's Peer has a public
  key, a preshared-key presence flag, an endpoint address, an optional keepalive
  interval, a last handshake timestamp, received and transmitted byte counters, an
  allowed-IP list and a protocol version; the fields and their types below are those
  that the struct literals and field accesses of the server use. Each field carries
  the name of its type as a prefix, to keep the fields of the records apart.
  A request reaches a method as a pointer: \<open>None\<close> is \<^verbatim>\<open>nil\<close>.
\<close>

record Peer =
  Peer_PublicKey :: string
  Peer_HasPresharedKey :: bool
  Peer_Endpoint :: string
  Peer_PersistentKeepAlive :: string
  Peer_LastHandshake :: Time
  Peer_ReceiveBytes :: int
  Peer_TransmitBytes :: int
  Peer_AllowedIPs :: "string list"
  Peer_ProtocolVersion :: int

record ListPeersResponse =
  Peers :: "Peer list"

record GetPeerRequest =
  Get_PublicKey :: string

record GetPeerResponse =
  Get_Peer :: "Peer option"

record AddPeerRequest =
  Add_PublicKey :: string
  Add_PresharedKey :: string
  Add_Endpoint :: string
  Add_PersistentKeepAlive :: string
  Add_AllowedIPs :: "string list"
  Add_ValidateOnly :: bool

record RemovePeerRequest =
  Remove_PublicKey :: string
  Remove_ValidateOnly :: bool

record CfgPeerResponse =
  OK :: bool

text \<open>
  \<^verbatim>\<open>Server{wg *wgctrl.Client; deviceName string}\<close>: the client handle carries no
  state of its own, the state it reaches is the \<open>'os\<close> argument of every method.
\<close>

record Server =
  deviceName :: string

definition peer2rpc :: "'os Ext \<Rightarrow> wgPeer \<Rightarrow> Peer" where
  "peer2rpc X peer =
     (let keepAlive = (if wgPeer_PersistentKeepaliveInterval peer > 0
                       then Duration_String X (wgPeer_PersistentKeepaliveInterval peer)
                       else '''');
          allowedIPs = map (IPNet_String X) (wgPeer_AllowedIPs peer)
      in \<lparr>Peer_PublicKey = Key_String X (wgPeer_PublicKey peer),
          Peer_HasPresharedKey = (wgPeer_PresharedKey peer \<noteq> zeroKey),
          Peer_Endpoint = UDPAddr_String X (wgPeer_Endpoint peer),
          Peer_PersistentKeepAlive = keepAlive,
          Peer_LastHandshake = wgPeer_LastHandshakeTime peer,
          Peer_ReceiveBytes = wgPeer_ReceiveBytes peer,
          Peer_TransmitBytes = wgPeer_TransmitBytes peer,
          Peer_AllowedIPs = allowedIPs,
          Peer_ProtocolVersion = wgPeer_ProtocolVersion peer\<rparr>)"

definition ListPeers :: "'os Ext \<Rightarrow> Server \<Rightarrow> 'os \<Rightarrow> go_error + ListPeersResponse" where
  "ListPeers X s os =
     (case wg_Device X os (deviceName s) of
        Inl err \<Rightarrow> Inl (Errorf ''could not get WireGuard device: '' (LibError err))
      | Inr dev \<Rightarrow> Inr \<lparr>Peers = map (peer2rpc X) (wgDevice_Peers dev)\<rparr>)"

definition validateGetPeerRequest :: "'os Ext \<Rightarrow> GetPeerRequest option \<Rightarrow> go_error option" where
  "validateGetPeerRequest X req =
     (case req of
        None \<Rightarrow> Some (RpcError (InvalidParams ''request body required'' None))
      | Some r \<Rightarrow>
          if Get_PublicKey r = '''' then
            Some (RpcError (InvalidParams ''public key is required'' None))
          else if length (Get_PublicKey r) \<noteq> 44 then
            Some (RpcError (InvalidParams ''malformed public key'' None))
          else (case ParseKey X (Get_PublicKey r) of
                  Inl err \<Rightarrow> Some (RpcError (InvalidParams (''invalid public key: '' @ err) None))
                | Inr _ \<Rightarrow> None))"

text \<open>The loop of GetPeer over \<^verbatim>\<open>dev.Peers\<close>: the first peer with the key, if any.\<close>

fun findPeer :: "'os Ext \<Rightarrow> Key \<Rightarrow> wgPeer list \<Rightarrow> GetPeerResponse" where
  "findPeer X publicKey [] = \<lparr>Get_Peer = None\<rparr>"
| "findPeer X publicKey (peer # peers) =
     (if wgPeer_PublicKey peer = publicKey
      then \<lparr>Get_Peer = Some (peer2rpc X peer)\<rparr>
      else findPeer X publicKey peers)"

definition GetPeer ::
  "'os Ext \<Rightarrow> Server \<Rightarrow> GetPeerRequest option \<Rightarrow> 'os \<Rightarrow> go_error + GetPeerResponse" where
  "GetPeer X s req os =
     (case validateGetPeerRequest X req of
        Some err \<Rightarrow> Inl err
      | None \<Rightarrow>
          (case wg_Device X os (deviceName s) of
             Inl err \<Rightarrow> Inl (Errorf ''could not get WireGuard device: '' (LibError err))
           | Inr dev \<Rightarrow>
               (case req of
                  None \<Rightarrow> Inl (Panic ''nil pointer dereference'')
                | Some r \<Rightarrow>
                    (case ParseKey X (Get_PublicKey r) of
                       Inl err \<Rightarrow> Inl (RpcError (InvalidParams (''invalid public key: '' @ err) None))
                     | Inr publicKey \<Rightarrow> Inr (findPeer X publicKey (wgDevice_Peers dev))))))"

text \<open>
  The message of \<^verbatim>\<open>fmt.Sprintf("range %q is not valid: %s", allowedIP, err)\<close>;
  \<open>Sprintf_q\<close> is the quoting of the verb \<^verbatim>\<open>%q\<close>.
\<close>

definition rangeNotValid :: "'os Ext \<Rightarrow> string \<Rightarrow> string \<Rightarrow> string" where
  "rangeNotValid X allowedIP err = ''range '' @ Sprintf_q X allowedIP @ '' is not valid: '' @ err"

text \<open>The loop of validateAddPeerRequest over \<^verbatim>\<open>req.AllowedIPs\<close>.\<close>

fun validateAllowedIPs :: "'os Ext \<Rightarrow> string list \<Rightarrow> go_error option" where
  "validateAllowedIPs X [] = None"
| "validateAllowedIPs X (allowedIP # rest) =
     (case ParseCIDR X allowedIP of
        Inl err \<Rightarrow> Some (RpcError (InvalidParams (rangeNotValid X allowedIP err) None))
      | Inr _ \<Rightarrow> validateAllowedIPs X rest)"

definition validateAddPeerRequest ::
  "'os Ext \<Rightarrow> 'os \<Rightarrow> AddPeerRequest option \<Rightarrow> go_error option" where
  "validateAddPeerRequest X os req =
     (case req of
        None \<Rightarrow> Some (RpcError (InvalidParams ''request body required'' None))
      | Some r \<Rightarrow>
          if Add_PublicKey r = '''' then
            Some (RpcError (InvalidParams ''public key is required'' None))
          else if length (Add_PublicKey r) \<noteq> 44 then
            Some (RpcError (InvalidParams ''malformed public key'' None))
          else
          (case ParseKey X (Add_PublicKey r) of
             Inl err \<Rightarrow> Some (RpcError (InvalidParams (''invalid public key: '' @ err) None))
           | Inr _ \<Rightarrow>
          (case (if Add_PresharedKey r \<noteq> '''' then
                   (if length (Add_PresharedKey r) \<noteq> 44 then
                      Some (RpcError (InvalidParams ''malformed preshared key'' None))
                    else
                      (case ParseKey X (Add_PresharedKey r) of
                         Inl err \<Rightarrow>
                           Some (RpcError (InvalidParams (''invalid preshared key: '' @ err) None))
                       | Inr _ \<Rightarrow> None))
                 else None) of
             Some e \<Rightarrow> Some e
           | None \<Rightarrow>
          (case (if Add_Endpoint r \<noteq> '''' then
                   (case ResolveUDPAddr X os (Add_Endpoint r) of
                      Inl err \<Rightarrow> Some (RpcError (InvalidParams (''invalid endpoint: '' @ err) None))
                    | Inr _ \<Rightarrow> None)
                 else None) of
             Some e \<Rightarrow> Some e
           | None \<Rightarrow>
          (case (if Add_PersistentKeepAlive r \<noteq> '''' then
                   (case ParseDuration X (Add_PersistentKeepAlive r) of
                      Inl err \<Rightarrow> Some (RpcError (InvalidParams (''invalid keepalive: '' @ err) None))
                    | Inr _ \<Rightarrow> None)
                 else None) of
             Some e \<Rightarrow> Some e
           | None \<Rightarrow> validateAllowedIPs X (Add_AllowedIPs r))))))"

text \<open>
  The loop of AddPeer over \<^verbatim>\<open>req.AllowedIPs\<close>, appending each parsed range to
  \<^verbatim>\<open>peer.AllowedIPs\<close> and returning at the first range that does not parse.
\<close>

fun appendAllowedIPs :: "'os Ext \<Rightarrow> string list \<Rightarrow> PeerConfig \<Rightarrow> go_error + PeerConfig" where
  "appendAllowedIPs X [] peer = Inr peer"
| "appendAllowedIPs X (allowedIP # rest) peer =
     (case ParseCIDR X allowedIP of
        Inl err \<Rightarrow> Inl (RpcError (InvalidParams (rangeNotValid X allowedIP err) None))
      | Inr aip \<Rightarrow>
          appendAllowedIPs X rest
            (peer\<lparr>PeerConfig_AllowedIPs := PeerConfig_AllowedIPs peer @ [aip]\<rparr>))"

text \<open>
  AddPeer after validation: the peer configuration built from the request, field by
  field, each parse repeated as in the source.
\<close>

definition buildPeerConfig :: "'os Ext \<Rightarrow> 'os \<Rightarrow> AddPeerRequest \<Rightarrow> go_error + PeerConfig" where
  "buildPeerConfig X os r =
     (case ParseKey X (Add_PublicKey r) of
        Inl err \<Rightarrow> Inl (RpcError (InvalidParams (''invalid public key: '' @ err) None))
      | Inr publicKey \<Rightarrow>
     (case (let peer = \<lparr>PeerConfig_PublicKey = publicKey,
                        PeerConfig_Remove = False,
                        PeerConfig_UpdateOnly = False,
                        PeerConfig_PresharedKey = None,
                        PeerConfig_Endpoint = None,
                        PeerConfig_PersistentKeepaliveInterval = None,
                        PeerConfig_ReplaceAllowedIPs = False,
                        PeerConfig_AllowedIPs = []\<rparr>
            in if Add_PresharedKey r \<noteq> '''' then
                 (case ParseKey X (Add_PresharedKey r) of
                    Inl err \<Rightarrow>
                      Inl (RpcError (InvalidParams (''invalid preshared key: '' @ err) None))
                  | Inr pk \<Rightarrow> Inr (peer\<lparr>PeerConfig_PresharedKey := Some pk\<rparr>))
               else Inr peer) of
        Inl e \<Rightarrow> Inl e
      | Inr peer \<Rightarrow>
     (case (if Add_Endpoint r \<noteq> '''' then
              (case ResolveUDPAddr X os (Add_Endpoint r) of
                 Inl err \<Rightarrow> Inl (RpcError (InvalidParams (''invalid endpoint: '' @ err) None))
               | Inr addr \<Rightarrow> Inr (peer\<lparr>PeerConfig_Endpoint := Some addr\<rparr>))
            else Inr peer) of
        Inl e \<Rightarrow> Inl e
      | Inr peer \<Rightarrow>
     (case (if Add_PersistentKeepAlive r \<noteq> '''' then
              (case ParseDuration X (Add_PersistentKeepAlive r) of
                 Inl err \<Rightarrow> Inl (RpcError (InvalidParams (''invalid keepalive: '' @ err) None))
               | Inr d \<Rightarrow> Inr (peer\<lparr>PeerConfig_PersistentKeepaliveInterval := Some d\<rparr>))
            else Inr peer) of
        Inl e \<Rightarrow> Inl e
      | Inr peer \<Rightarrow> appendAllowedIPs X (Add_AllowedIPs r) peer))))"

text \<open>\<^verbatim>\<open>wgtypes.Config{Peers: []wgtypes.PeerConfig{peer}}\<close>\<close>

definition peerOnlyConfig :: "PeerConfig \<Rightarrow> Config" where
  "peerOnlyConfig peer =
     \<lparr>Config_PrivateKey = None, Config_ListenPort = None, Config_FirewallMark = None,
      Config_ReplacePeers = False, Config_Peers = [peer]\<rparr>"

text \<open>
  The tail shared by AddPeer and RemovePeer: the call of \<^verbatim>\<open>s.wg.ConfigureDevice\<close>,
  the one place where the state changes, and the response built from its outcome.
\<close>

definition configurePeer ::
  "'os Ext \<Rightarrow> Server \<Rightarrow> PeerConfig \<Rightarrow> 'os \<Rightarrow> (go_error + CfgPeerResponse) \<times> 'os" where
  "configurePeer X s peer os =
     (case wg_ConfigureDevice X os (deviceName s) (peerOnlyConfig peer) of
        (Some err, os') \<Rightarrow>
          (Inl (Errorf ''could not configure WireGuard device: '' (LibError err)), os')
      | (None, os') \<Rightarrow> (Inr \<lparr>OK = True\<rparr>, os'))"

definition AddPeer ::
  "'os Ext \<Rightarrow> Server \<Rightarrow> AddPeerRequest option \<Rightarrow> 'os \<Rightarrow> (go_error + CfgPeerResponse) \<times> 'os" where
  "AddPeer X s req os =
     (case validateAddPeerRequest X os req of
        Some err \<Rightarrow> (Inl err, os)
      | None \<Rightarrow>
          (case req of
             None \<Rightarrow> (Inl (Panic ''nil pointer dereference''), os)
           | Some r \<Rightarrow>
               if Add_ValidateOnly r then (Inr \<lparr>OK = False\<rparr>, os)
               else (case buildPeerConfig X os r of
                       Inl err \<Rightarrow> (Inl err, os)
                     | Inr peer \<Rightarrow> configurePeer X s peer os)))"

definition validateRemovePeerRequest ::
  "'os Ext \<Rightarrow> RemovePeerRequest option \<Rightarrow> go_error option" where
  "validateRemovePeerRequest X req =
     (case req of
        None \<Rightarrow> Some (RpcError (InvalidParams ''request body required'' None))
      | Some r \<Rightarrow>
          if Remove_PublicKey r = '''' then
            Some (RpcError (InvalidParams ''public key is required'' None))
          else if length (Remove_PublicKey r) \<noteq> 44 then
            Some (RpcError (InvalidParams ''malformed public key'' None))
          else (case ParseKey X (Remove_PublicKey r) of
                  Inl err \<Rightarrow> Some (RpcError (InvalidParams (''invalid public key: '' @ err) None))
                | Inr _ \<Rightarrow> None))"

definition RemovePeer ::
  "'os Ext \<Rightarrow> Server \<Rightarrow> RemovePeerRequest option \<Rightarrow> 'os \<Rightarrow> (go_error + CfgPeerResponse) \<times> 'os" where
  "RemovePeer X s req os =
     (case validateRemovePeerRequest X req of
        Some err \<Rightarrow> (Inl err, os)
      | None \<Rightarrow>
          (case req of
             None \<Rightarrow> (Inl (Panic ''nil pointer dereference''), os)
           | Some r \<Rightarrow>
               if Remove_ValidateOnly r then (Inr \<lparr>OK = False\<rparr>, os)
               else (case ParseKey X (Remove_PublicKey r) of
                       Inl err \<Rightarrow> (Inl (Errorf ''invalid public key: '' (LibError err)), os)
                     | Inr publicKey \<Rightarrow>
                         configurePeer X s
                           \<lparr>PeerConfig_PublicKey = publicKey,
                            PeerConfig_Remove = True,
                            PeerConfig_UpdateOnly = False,
                            PeerConfig_PresharedKey = None,
                            PeerConfig_Endpoint = None,
                            PeerConfig_PersistentKeepaliveInterval = None,
                            PeerConfig_ReplaceAllowedIPs = False,
                            PeerConfig_AllowedIPs = []\<rparr> os)))"

section \<open>Package wgapi: status reporting and peer update\<close>

text \<open>
  Modelled from the spec: the types of package \<^verbatim>\<open>model\<close> (\<^verbatim>\<open>Client\<close>,
  \<^verbatim>\<open>ClientStatus\<close>, \<^verbatim>\<open>Peer\<close>, \<^verbatim>\<open>Resp\<close>) are declared outside the sources.
  The spec's ClientStatus has the peer's fields, a locally known name and email and a
  derived connected flag; the client registry lists public key, name and email. The
  fields below are those that this package reads and writes.
\<close>

record Client =
  Client_PublicKey :: string
  Client_Name :: string
  Client_Email :: string

record ClientStatus =
  CS_PublicKey :: string
  CS_HasPresharedKey :: bool
  CS_ProtocolVersion :: int
  CS_Name :: string
  CS_Email :: string
  CS_Connected :: bool
  CS_AllowedIPs :: "string list"
  CS_Endpoint :: string
  CS_LastHandshake :: Time
  CS_LastHandshakeRelative :: Duration
  CS_ReceivedBytes :: int
  CS_TransmittedBytes :: int

record ModelPeer =
  ModelPeer_AllowedIPs :: "string list"
  ModelPeer_PublicKey :: string
  ModelPeer_PresharedKey :: string

record Resp =
  Resp_OK :: bool

text \<open>
  What the functions of this file see of the world around them: the operating system
  behind the client handle, the process environment, the package variable
  \<^verbatim>\<open>server\<close>, the clock (\<open>W_clock w k\<close> is what the \<open>k\<close>-th call of
  \<^verbatim>\<open>time.Now()\<close> returns) and what \<^verbatim>\<open>core.ReadClients()\<close> returns (the client
  registry, or the text of its error). \<^verbatim>\<open>core.ReadClients\<close> belongs to another
  package, outside the sources: its result is a parameter.
\<close>

record 'os World =
  W_os :: 'os
  W_environ :: "string \<rightharpoonup> string"
  W_server :: "Server option"
  W_clock :: "nat \<Rightarrow> Time"
  W_ReadClients :: "string + Client list"

text \<open>\<^verbatim>\<open>os.Getenv\<close>: the value of the variable, empty when it is not set.\<close>

definition Getenv :: "'os World \<Rightarrow> string \<Rightarrow> string" where
  "Getenv w key = (case W_environ w key of None \<Rightarrow> '''' | Some v \<Rightarrow> v)"

definition Enabeled :: "'os World \<Rightarrow> bool" where
  "Enabeled w = (Getenv w ''WG_DEVICE_NAME'' \<noteq> '''')"

definition New :: "'os Ext \<Rightarrow> 'os World \<Rightarrow> go_error + Server" where
  "New X w =
     (case W_server w of
        None \<Rightarrow>
          (case wgctrl_New X (W_os w) of
             Some err \<Rightarrow> Inl (LibError err)
           | None \<Rightarrow>
               (let name = Getenv w ''WG_DEVICE_NAME'' in
                if name = '''' then
                  Inl (RpcError \<lparr>Code = 0, Message = ''env var WG_DEVICE_NAME not set.'',
                                 Data = None\<rparr>)
                else (case wg_Device X (W_os w) name of
                        Inl err \<Rightarrow> Inl (LibError err)
                      | Inr device \<Rightarrow> Inr \<lparr>deviceName = wgDevice_Name device\<rparr>)))
      | Some s \<Rightarrow> Inr s)"

text \<open>
  The body of the loop of clientStatus up to the registry lookup: the status built
  from one peer, \<open>now\<close> being the clock read by \<^verbatim>\<open>time.Since\<close>. The conversion
  \<^verbatim>\<open>int(peer.ReceiveBytes)\<close> from \<^verbatim>\<open>int64\<close> keeps the value where \<^verbatim>\<open>int\<close> has 64 bits.
\<close>

definition newClientStatus :: "'os Ext \<Rightarrow> Time \<Rightarrow> Peer \<Rightarrow> ClientStatus" where
  "newClientStatus X now peer =
     (let peerHandshake = Peer_LastHandshake peer;
          peerHandshakeRelative = time_Since now peerHandshake;
          peerActive = (Minutes X peerHandshakeRelative < 3)
      in \<lparr>CS_PublicKey = Peer_PublicKey peer,
          CS_HasPresharedKey = Peer_HasPresharedKey peer,
          CS_ProtocolVersion = Peer_ProtocolVersion peer,
          CS_Name = ''UNKNOWN'',
          CS_Email = ''UNKNOWN'',
          CS_Connected = peerActive,
          CS_AllowedIPs = Peer_AllowedIPs peer,
          CS_Endpoint = Peer_Endpoint peer,
          CS_LastHandshake = peerHandshake,
          CS_LastHandshakeRelative = peerHandshakeRelative,
          CS_ReceivedBytes = Peer_ReceiveBytes peer,
          CS_TransmittedBytes = Peer_TransmitBytes peer\<rparr>)"

text \<open>
  The inner loop over \<^verbatim>\<open>clients\<close>: the first client with the status's public key
  gives its name and email, and the loop breaks.
\<close>

fun withClientDetails :: "Client list \<Rightarrow> ClientStatus \<Rightarrow> ClientStatus" where
  "withClientDetails [] st = st"
| "withClientDetails (client # clients) st =
     (if Client_PublicKey client \<noteq> CS_PublicKey st
      then withClientDetails clients st
      else st\<lparr>CS_Name := Client_Name client, CS_Email := Client_Email client\<rparr>)"

text \<open>
  The loop over \<^verbatim>\<open>st.Peers\<close>; \<open>k\<close> counts the calls of \<^verbatim>\<open>time.Now()\<close> made so far,
  \<open>details\<close> is the flag \<^verbatim>\<open>withClientDetails\<close> of the source.
\<close>

fun clientStatusLoop ::
  "'os Ext \<Rightarrow> (nat \<Rightarrow> Time) \<Rightarrow> bool \<Rightarrow> Client list \<Rightarrow> nat \<Rightarrow> Peer list \<Rightarrow> ClientStatus list" where
  "clientStatusLoop X clk details clients k [] = []"
| "clientStatusLoop X clk details clients k (peer # peers) =
     (let st = newClientStatus X (clk k) peer;
          st' = (if details then withClientDetails clients st else st)
      in st' # clientStatusLoop X clk details clients (Suc k) peers)"

definition clientStatus :: "'os Ext \<Rightarrow> 'os World \<Rightarrow> go_error + ClientStatus list" where
  "clientStatus X w =
     (case New X w of
        Inl err \<Rightarrow> Inl err
      | Inr s \<Rightarrow>
          (case ListPeers X s (W_os w) of
             Inl err \<Rightarrow> Inl err
           | Inr st \<Rightarrow>
               (let (clients, details) =
                      (case W_ReadClients w of
                         Inl err \<Rightarrow> ([], False)
                       | Inr cl \<Rightarrow> (cl, True));
                    statuses = clientStatusLoop X (W_clock w) details clients 0 (Peers st)
                in Inr (sort_Slice statuses
                          (\<lambda>a b. CS_LastHandshakeRelative a < CS_LastHandshakeRelative b)))))"

definition updatePeerCall ::
  "'os Ext \<Rightarrow> 'os World \<Rightarrow> ModelPeer \<Rightarrow> bool \<Rightarrow> (go_error + Resp) \<times> 'os World" where
  "updatePeerCall X w peer enable =
     (case New X w of
        Inl err \<Rightarrow> (Inl err, w)
      | Inr s \<Rightarrow>
          if enable then
            (let rq = \<lparr>Add_PublicKey = ModelPeer_PublicKey peer,
                       Add_PresharedKey = ModelPeer_PresharedKey peer,
                       Add_Endpoint = '''',
                       Add_PersistentKeepAlive = '''',
                       Add_AllowedIPs = ModelPeer_AllowedIPs peer,
                       Add_ValidateOnly = False\<rparr>
             in case AddPeer X s (Some rq) (W_os w) of
                  (Inl err, os') \<Rightarrow> (Inl err, w\<lparr>W_os := os'\<rparr>)
                | (Inr rsp, os') \<Rightarrow> (Inr \<lparr>Resp_OK = OK rsp\<rparr>, w\<lparr>W_os := os'\<rparr>))
          else
            (let rq = \<lparr>Remove_PublicKey = ModelPeer_PublicKey peer,
                       Remove_ValidateOnly = False\<rparr>
             in case RemovePeer X s (Some rq) (W_os w) of
                  (Inl err, os') \<Rightarrow> (Inl err, w\<lparr>W_os := os'\<rparr>)
                | (Inr rsp, os') \<Rightarrow> (Inr \<lparr>Resp_OK = OK rsp\<rparr>, w\<lparr>W_os := os'\<rparr>)))"

text \<open>
  \<open>core_UpdatePeer\<close> is the fallback \<^verbatim>\<open>core.UpdatePeer\<close> of another package, a
  parameter here.
\<close>

definition UpdatePeer ::
  "'os Ext \<Rightarrow> (ModelPeer \<Rightarrow> bool \<Rightarrow> 'os World \<Rightarrow> (go_error + Resp) \<times> 'os World)
   \<Rightarrow> 'os World \<Rightarrow> ModelPeer \<Rightarrow> bool \<Rightarrow> (go_error + Resp) \<times> 'os World" where
  "UpdatePeer X core_UpdatePeer w peer enable =
     (if Enabeled w then updatePeerCall X w peer enable
      else core_UpdatePeer peer enable w)"

section \<open>A sample world\<close>

text \<open>
  A small instance of the parameters, on which the theorems below are exercised. The
  state of its operating system is the number of calls of ConfigureDevice made so
  far. Its device \<open>wg0\<close> has two peers: one that never shook hands (the zero time)
  and one whose last handshake is a minute old. Instants count nanoseconds from the
  zero time, so the clock of the year 2026 reads about \<open>6.39 * 10 ^ 19\<close>.
\<close>

definition demoKeyText :: string where
  "demoKeyText = ''//////////////////////////////////////////8=''"

definition demoKey :: Key where
  "demoKey = replicate 32 255"

definition otherKeyText :: string where
  "otherKeyText = ''AQEBAQEBAQEBAQEBAQEBAQEBAQEBAQEBAQEBAQEBAQE=''"

definition otherKey :: Key where
  "otherKey = replicate 32 1"

definition strangerKeyText :: string where
  "strangerKeyText = ''AgICAgICAgICAgICAgICAgICAgICAgICAgICAgICAgI=''"

definition strangerKey :: Key where
  "strangerKey = replicate 32 2"

definition demoNet :: IPNet where
  "demoNet = \<lparr>IPNet_IP = [10, 0, 0, 2], IPNet_Mask = [255, 255, 255, 255]\<rparr>"

definition demoAddr :: UDPAddr where
  "demoAddr = \<lparr>UDPAddr_IP = [127, 0, 0, 1], UDPAddr_Port = 51820, UDPAddr_Zone = ''''\<rparr>"

definition demoNow :: Time where
  "demoNow = 63900000000000000000"

definition stalePeer :: wgPeer where
  "stalePeer =
     \<lparr>wgPeer_PublicKey = otherKey, wgPeer_PresharedKey = zeroKey, wgPeer_Endpoint = None,
      wgPeer_PersistentKeepaliveInterval = 0, wgPeer_LastHandshakeTime = 0,
      wgPeer_ReceiveBytes = 0, wgPeer_TransmitBytes = 0, wgPeer_AllowedIPs = [],
      wgPeer_ProtocolVersion = 1\<rparr>"

definition freshPeer :: wgPeer where
  "freshPeer =
     \<lparr>wgPeer_PublicKey = demoKey, wgPeer_PresharedKey = zeroKey,
      wgPeer_Endpoint = Some demoAddr,
      wgPeer_PersistentKeepaliveInterval = 25000000000,
      wgPeer_LastHandshakeTime = demoNow - 60000000000,
      wgPeer_ReceiveBytes = 1024, wgPeer_TransmitBytes = 2048, wgPeer_AllowedIPs = [demoNet],
      wgPeer_ProtocolVersion = 1\<rparr>"

definition demoDevice :: wgDevice where
  "demoDevice =
     \<lparr>wgDevice_Name = ''wg0'', wgDevice_Type = 1, wgDevice_PrivateKey = zeroKey,
      wgDevice_PublicKey = zeroKey, wgDevice_ListenPort = 51820, wgDevice_FirewallMark = 0,
      wgDevice_Peers = [stalePeer, freshPeer]\<rparr>"

definition demoExt :: "nat Ext" where
  "demoExt =
     \<lparr>wgctrl_New = (\<lambda>os. None),
      wg_Device = (\<lambda>os name. if name = ''wg0'' then Inr demoDevice else Inl ''no such device''),
      wg_ConfigureDevice = (\<lambda>os name cfg. (None, Suc os)),
      ParseKey = (\<lambda>s. if s = demoKeyText then Inr demoKey
                       else if s = otherKeyText then Inr otherKey
                       else if s = strangerKeyText then Inr strangerKey
                       else Inl ''illegal base64 data''),
      Key_String = (\<lambda>k. if k = demoKey then demoKeyText
                         else if k = otherKey then otherKeyText
                         else strangerKeyText),
      ResolveUDPAddr = (\<lambda>os s. if s = ''127.0.0.1:51820'' then Inr demoAddr
                                else Inl ''missing port in address''),
      UDPAddr_String = (\<lambda>a. case a of None \<Rightarrow> ''<nil>'' | Some _ \<Rightarrow> ''127.0.0.1:51820''),
      ParseDuration = (\<lambda>s. if s = ''25s'' then Inr 25000000000 else Inl ''invalid duration''),
      Duration_String = (\<lambda>d. ''25s''),
      ParseCIDR = (\<lambda>s. if s = ''10.0.0.2/32'' then Inr demoNet else Inl ''invalid CIDR address''),
      IPNet_String = (\<lambda>n. ''10.0.0.2/32''),
      Sprintf_q = (\<lambda>s. s),
      float64 = (\<lambda>x. x)\<rparr>"

definition demoServer :: Server where
  "demoServer = \<lparr>deviceName = ''wg0''\<rparr>"

definition demoClient :: Client where
  "demoClient =
     \<lparr>Client_PublicKey = demoKeyText, Client_Name = ''alice'',
      Client_Email = ''alice@example.org''\<rparr>"

definition demoWorld :: "nat World" where
  "demoWorld =
     \<lparr>W_os = 0,
      W_environ = [''WG_DEVICE_NAME'' \<mapsto> ''wg0''],
      W_server = None,
      W_clock = (\<lambda>k. demoNow + int k),
      W_ReadClients = Inr [demoClient]\<rparr>"

text \<open>The same world with a client registry that cannot be read.\<close>

definition brokenWorld :: "nat World" where
  "brokenWorld = demoWorld\<lparr>W_ReadClients := Inl ''open clients: no such file or directory''\<rparr>"

text \<open>Requests of the sample world.\<close>

definition demoAdd :: AddPeerRequest where
  "demoAdd =
     \<lparr>Add_PublicKey = strangerKeyText, Add_PresharedKey = '''',
      Add_Endpoint = ''127.0.0.1:51820'', Add_PersistentKeepAlive = ''25s'',
      Add_AllowedIPs = [''10.0.0.2/32''], Add_ValidateOnly = False\<rparr>"

definition demoRemove :: RemovePeerRequest where
  "demoRemove = \<lparr>Remove_PublicKey = demoKeyText, Remove_ValidateOnly = False\<rparr>"

definition demoGet :: GetPeerRequest where
  "demoGet = \<lparr>Get_PublicKey = strangerKeyText\<rparr>"

text \<open>
  The pair of \<^verbatim>\<open>clients\<close> and \<^verbatim>\<open>withClientDetails\<close> that clientStatus computes from
  the result of \<^verbatim>\<open>core.ReadClients()\<close>.
\<close>

definition registryOf :: "'os World \<Rightarrow> Client list \<times> bool" where
  "registryOf w = (case W_ReadClients w of Inl err \<Rightarrow> ([], False) | Inr cl \<Rightarrow> (cl, True))"

text \<open>The statuses that clientStatus returns in the sample world, in its order.\<close>

definition freshStatus :: ClientStatus where
  "freshStatus =
     \<lparr>CS_PublicKey = demoKeyText, CS_HasPresharedKey = False, CS_ProtocolVersion = 1,
      CS_Name = ''alice'', CS_Email = ''alice@example.org'', CS_Connected = True,
      CS_AllowedIPs = [''10.0.0.2/32''], CS_Endpoint = ''127.0.0.1:51820'',
      CS_LastHandshake = demoNow - 60000000000, CS_LastHandshakeRelative = 60000000001,
      CS_ReceivedBytes = 1024, CS_TransmittedBytes = 2048\<rparr>"

definition staleStatus :: ClientStatus where
  "staleStatus =
     \<lparr>CS_PublicKey = otherKeyText, CS_HasPresharedKey = False, CS_ProtocolVersion = 1,
      CS_Name = ''UNKNOWN'', CS_Email = ''UNKNOWN'', CS_Connected = False,
      CS_AllowedIPs = [], CS_Endpoint = ''<nil>'',
      CS_LastHandshake = 0, CS_LastHandshakeRelative = maxDuration,
      CS_ReceivedBytes = 0, CS_TransmittedBytes = 0\<rparr>"

section \<open>Properties\<close>

subsection \<open>Sorting\<close>

lemma set_insert_back: "set (insert_back lessf x ys) = insert x (set ys)"
proof (induction lessf x ys rule: insert_back.induct)
  case (1 lessf x ys)
  show ?case
  proof (cases "ys \<noteq> [] \<and> lessf x (last ys)")
    case True
    then have ys: "ys = butlast ys @ [last ys]" by simp
    have "set (insert_back lessf x ys) = set (insert_back lessf x (butlast ys)) \<union> {last ys}"
      using True by (subst insert_back.simps) simp
    also have "\<dots> = insert x (set (butlast ys)) \<union> {last ys}"
      using "1.IH" True by simp
    also have "\<dots> = insert x (set (butlast ys @ [last ys]))" by auto
    finally show ?thesis using ys by simp
  next
    case False
    then show ?thesis by (subst insert_back.simps) auto
  qed
qed

lemma set_sort_Slice_aux:
  "set (foldl (\<lambda>sorted x. insert_back lessf x sorted) acc data) = set acc \<union> set data"
  by (induction data arbitrary: acc) (auto simp: set_insert_back)

lemma set_sort_Slice: "set (sort_Slice data lessf) = set data"
  by (simp add: sort_Slice_def set_sort_Slice_aux)

lemma length_insert_back: "length (insert_back lessf x ys) = Suc (length ys)"
proof (induction lessf x ys rule: insert_back.induct)
  case (1 lessf x ys)
  show ?case
  proof (cases "ys \<noteq> [] \<and> lessf x (last ys)")
    case True
    then have "length (insert_back lessf x ys) = Suc (length (insert_back lessf x (butlast ys)))"
      by (subst insert_back.simps) simp
    also have "\<dots> = Suc (Suc (length (butlast ys)))" using "1.IH" True by simp
    finally show ?thesis using True by simp
  next
    case False
    then show ?thesis by (subst insert_back.simps) auto
  qed
qed

lemma length_sort_Slice_aux:
  "length (foldl (\<lambda>sorted x. insert_back lessf x sorted) acc data) = length acc + length data"
  by (induction data arbitrary: acc) (auto simp: length_insert_back)

lemma length_sort_Slice: "length (sort_Slice data lessf) = length data"
  by (simp add: sort_Slice_def length_sort_Slice_aux)

lemma sorted_le_last:
  "sorted_wrt (\<lambda>a b. key a \<le> key b) ys \<Longrightarrow> ys \<noteq> [] \<Longrightarrow> a \<in> set ys \<Longrightarrow> (key a :: 'k :: linorder) \<le> key (last ys)"
proof -
  assume s: "sorted_wrt (\<lambda>a b. key a \<le> key b) ys" and ne: "ys \<noteq> []" and a: "a \<in> set ys"
  from ne have ys: "ys = butlast ys @ [last ys]" by simp
  from s have "sorted_wrt (\<lambda>a b. key a \<le> key b) (butlast ys @ [last ys])" using ys by simp
  then have "\<forall>b \<in> set (butlast ys). key b \<le> key (last ys)"
    by (simp add: sorted_wrt_append)
  moreover from a ys have "a \<in> set (butlast ys) \<or> a = last ys"
    by (metis Un_iff empty_iff empty_set insert_iff list.simps(15) set_append)
  ultimately show ?thesis by auto
qed

lemma sorted_insert_back:
  fixes key :: "'a \<Rightarrow> 'k :: linorder"
  assumes "sorted_wrt (\<lambda>a b. key a \<le> key b) ys"
  shows "sorted_wrt (\<lambda>a b. key a \<le> key b) (insert_back (\<lambda>a b. key a < key b) x ys)"
  using assms
proof (induction "(\<lambda>a b. key a < key b)" x ys rule: insert_back.induct)
  case (1 x ys)
  show ?case
  proof (cases "ys \<noteq> [] \<and> key x < key (last ys)")
    case True
    then have ys: "ys = butlast ys @ [last ys]" by simp
    with "1.prems" have sb: "sorted_wrt (\<lambda>a b. key a \<le> key b) (butlast ys @ [last ys])" by simp
    then have sbl: "sorted_wrt (\<lambda>a b. key a \<le> key b) (butlast ys)"
      and le: "\<forall>b \<in> set (butlast ys). key b \<le> key (last ys)"
      by (simp_all add: sorted_wrt_append)
    have ih: "sorted_wrt (\<lambda>a b. key a \<le> key b) (insert_back (\<lambda>a b. key a < key b) x (butlast ys))"
      using "1.hyps" True sbl by simp
    have "insert_back (\<lambda>a b. key a < key b) x ys
          = insert_back (\<lambda>a b. key a < key b) x (butlast ys) @ [last ys]"
      using True by (subst insert_back.simps) simp
    moreover have "sorted_wrt (\<lambda>a b. key a \<le> key b)
                     (insert_back (\<lambda>a b. key a < key b) x (butlast ys) @ [last ys])"
      using ih le True by (auto simp: sorted_wrt_append set_insert_back)
    ultimately show ?thesis by simp
  next
    case False
    have eq: "insert_back (\<lambda>a b. key a < key b) x ys = ys @ [x]"
      using False by (subst insert_back.simps) auto
    show ?thesis
    proof (cases "ys = []")
      case True
      then show ?thesis using eq by simp
    next
      case ne: False
      with False have "key (last ys) \<le> key x" by auto
      moreover have "\<forall>a \<in> set ys. key a \<le> key (last ys)"
        using sorted_le_last [OF "1.prems" ne] by blast
      ultimately have "\<forall>a \<in> set ys. key a \<le> key x" by auto
      then show ?thesis using eq "1.prems" by (simp add: sorted_wrt_append)
    qed
  qed
qed

lemma sorted_sort_Slice_aux:
  fixes key :: "'a \<Rightarrow> 'k :: linorder"
  shows "sorted_wrt (\<lambda>a b. key a \<le> key b) acc \<Longrightarrow>
    sorted_wrt (\<lambda>a b. key a \<le> key b)
      (foldl (\<lambda>sorted x. insert_back (\<lambda>a b. key a < key b) x sorted) acc data)"
  by (induction data arbitrary: acc) (auto simp: sorted_insert_back)

lemma sorted_sort_Slice:
  fixes key :: "'a \<Rightarrow> 'k :: linorder"
  shows "sorted_wrt (\<lambda>a b. key a \<le> key b) (sort_Slice data (\<lambda>a b. key a < key b))"
  by (simp add: sort_Slice_def sorted_sort_Slice_aux)

subsection \<open>Durations and their minutes\<close>

lemma sdiv_ge: "3 * Minute \<le> d \<Longrightarrow> 3 \<le> d sdiv Minute \<and> 0 \<le> d smod Minute"
proof -
  assume h: "3 * Minute \<le> d"
  have M: "0 < Minute" by (simp add: Minute_def)
  with h have d: "0 < d" by linarith
  have "d sdiv Minute = d div Minute" "d smod Minute = d mod Minute"
    using d M by (simp_all add: signed_divide_int_def signed_modulo_int_def)
  moreover have "3 \<le> d div Minute"
    using zdiv_mono1 [OF h M] M by simp
  moreover have "0 \<le> d mod Minute" using M by simp
  ultimately show ?thesis by simp
qed

lemma sdiv_lt: "d < 3 * Minute \<Longrightarrow> d sdiv Minute \<le> 2 \<and> d smod Minute \<le> Minute - 1"
proof -
  assume h: "d < 3 * Minute"
  have M: "0 < Minute" by (simp add: Minute_def)
  show ?thesis
  proof (cases "0 \<le> d")
    case True
    have e: "d sdiv Minute = d div Minute" "d smod Minute = d mod Minute"
      using True M by (auto simp add: signed_divide_int_def signed_modulo_int_def sgn_if)
    have "d div Minute < 3"
    proof (rule ccontr)
      assume "\<not> d div Minute < 3"
      then have "3 * Minute \<le> (d div Minute) * Minute"
        using M by (simp add: mult_right_mono)
      moreover have "(d div Minute) * Minute + d mod Minute = d" by simp
      moreover have "0 \<le> d mod Minute" using M by simp
      ultimately show False using h by linarith
    qed
    moreover have "d mod Minute < Minute" using M by simp
    ultimately show ?thesis using e by simp
  next
    case False
    then have e: "d sdiv Minute = - (\<bar>d\<bar> div Minute)" "d smod Minute = - (\<bar>d\<bar> mod Minute)"
      using M by (auto simp add: signed_divide_int_def signed_modulo_int_def sgn_if)
    have "0 \<le> \<bar>d\<bar> div Minute" using M by (simp add: pos_imp_zdiv_nonneg_iff)
    moreover have "0 \<le> \<bar>d\<bar> mod Minute" using M by simp
    ultimately show ?thesis using e M by linarith
  qed
qed

lemma is_float64_int: "\<bar>m\<bar> < 2 ^ 53 \<Longrightarrow> is_float64 (of_int m)"
  unfolding is_float64_def by (rule exI [of _ m], rule exI [of _ 0], rule exI [of _ 0]) simp

lemma is_float64_frac36: "\<bar>m\<bar> < 2 ^ 53 \<Longrightarrow> is_float64 (of_int m / 2 ^ 36)"
  unfolding is_float64_def by (rule exI [of _ m], rule exI [of _ 0], rule exI [of _ 36]) simp

lemma Minutes_less_3:
  assumes fl: "float64_rounding (float64 X)"
  shows "Minutes X d < 3 \<longleftrightarrow> d < 3 * Minute"
proof -
  define f where "f = float64 X"
  have mono: "\<And>x y. x \<le> y \<Longrightarrow> f x \<le> f y"
    and exact: "\<And>x. is_float64 x \<Longrightarrow> f x = x"
    using fl by (auto simp: float64_rounding_def f_def)
  have f0: "f 0 = 0" using exact [OF is_float64_int [of 0]] by simp
  have f2: "f 2 = 2" using exact [OF is_float64_int [of 2]] by simp
  have f3: "f 3 = 3" using exact [OF is_float64_int [of 3]] by simp
  have fM: "f 59999999999 = 59999999999" using exact [OF is_float64_int [of 59999999999]] by simp
  have fq: "f (68719476735 / 2 ^ 36) = 68719476735 / 2 ^ 36"
    using exact [OF is_float64_frac36 [of 68719476735]] by simp
  have fs: "f (206158430207 / 2 ^ 36) = 206158430207 / 2 ^ 36"
    using exact [OF is_float64_frac36 [of 206158430207]] by simp
  have M: "Minutes X d = f (f (of_int (d sdiv Minute)) + f (f (of_int (d smod Minute)) / 60000000000))"
    by (simp add: Minutes_def f_def Let_def)
  show ?thesis
  proof (cases "d < 3 * Minute")
    case True
    from sdiv_lt [OF True] have a: "d sdiv Minute \<le> 2" and b: "d smod Minute \<le> 59999999999"
      by (simp_all add: Minute_def)
    have "f (of_int (d sdiv Minute)) \<le> f 2" using a by (intro mono) simp
    then have a': "f (of_int (d sdiv Minute)) \<le> 2" using f2 by simp
    have "f (of_int (d smod Minute)) \<le> f 59999999999" using b by (intro mono) simp
    then have "f (of_int (d smod Minute)) \<le> 59999999999" using fM by simp
    then have "f (of_int (d smod Minute)) / 60000000000 \<le> 68719476735 / 2 ^ 36"
      by (simp add: field_simps)
    then have "f (f (of_int (d smod Minute)) / 60000000000) \<le> f (68719476735 / 2 ^ 36)"
      by (rule mono)
    then have b': "f (f (of_int (d smod Minute)) / 60000000000) \<le> 68719476735 / 2 ^ 36"
      using fq by simp
    have "f (of_int (d sdiv Minute)) + f (f (of_int (d smod Minute)) / 60000000000)
          \<le> 206158430207 / 2 ^ 36"
      using a' b' by simp
    then have "Minutes X d \<le> f (206158430207 / 2 ^ 36)" unfolding M by (rule mono)
    then have "Minutes X d < 3" using fs by simp
    then show ?thesis using True by simp
  next
    case False
    then have "3 * Minute \<le> d" by simp
    from sdiv_ge [OF this] have a: "3 \<le> d sdiv Minute" and b: "0 \<le> d smod Minute" by simp_all
    have "f 3 \<le> f (of_int (d sdiv Minute))" using a by (intro mono) simp
    then have a': "3 \<le> f (of_int (d sdiv Minute))" using f3 by simp
    have "f 0 \<le> f (of_int (d smod Minute))" using b by (intro mono) simp
    then have "0 \<le> f (of_int (d smod Minute)) / 60000000000" using f0 by simp
    then have "f 0 \<le> f (f (of_int (d smod Minute)) / 60000000000)" by (rule mono)
    then have b': "0 \<le> f (f (of_int (d smod Minute)) / 60000000000)" using f0 by simp
    have "3 \<le> f (of_int (d sdiv Minute)) + f (f (of_int (d smod Minute)) / 60000000000)"
      using a' b' by simp
    then have "f 3 \<le> Minutes X d" unfolding M by (rule mono)
    then have "\<not> Minutes X d < 3" using f3 by simp
    then show ?thesis using False by simp
  qed
qed

subsection \<open>The status of the clients\<close>

lemma demo_clientStatus: "clientStatus demoExt demoWorld = Inr [freshStatus, staleStatus]"
  by code_simp

lemma withClientDetails_cases:
  "withClientDetails clients st = st \<and> CS_PublicKey st \<notin> Client_PublicKey ` set clients
   \<or> (\<exists>c \<in> set clients. Client_PublicKey c = CS_PublicKey st
         \<and> withClientDetails clients st = st\<lparr>CS_Name := Client_Name c, CS_Email := Client_Email c\<rparr>)"
  by (induction clients) auto

lemma withClientDetails_fields:
  "CS_Connected (withClientDetails clients st) = CS_Connected st"
  "CS_LastHandshakeRelative (withClientDetails clients st) = CS_LastHandshakeRelative st"
  "CS_LastHandshake (withClientDetails clients st) = CS_LastHandshake st"
  "CS_PublicKey (withClientDetails clients st) = CS_PublicKey st"
  using withClientDetails_cases [of clients st] by auto

lemma withClientDetails_no_match:
  "CS_PublicKey st \<notin> Client_PublicKey ` set clients \<Longrightarrow> withClientDetails clients st = st"
  by (induction clients) auto

lemma clientStatusLoop_elem:
  "st \<in> set (clientStatusLoop X clk details clients k peers) \<Longrightarrow>
   \<exists>i peer. k \<le> i \<and> i < k + length peers \<and> peer \<in> set peers \<and>
     st = (if details then withClientDetails clients (newClientStatus X (clk i) peer)
           else newClientStatus X (clk i) peer)"
proof (induction peers arbitrary: k)
  case Nil
  then show ?case by simp
next
  case (Cons p ps)
  from Cons.prems have
    "st = (if details then withClientDetails clients (newClientStatus X (clk k) p)
           else newClientStatus X (clk k) p)
     \<or> st \<in> set (clientStatusLoop X clk details clients (Suc k) ps)"
    by (simp add: Let_def)
  then show ?case
  proof
    assume "st = (if details then withClientDetails clients (newClientStatus X (clk k) p)
           else newClientStatus X (clk k) p)"
    then show ?thesis by (intro exI [of _ k] exI [of _ p]) simp
  next
    assume "st \<in> set (clientStatusLoop X clk details clients (Suc k) ps)"
    from Cons.IH [OF this] obtain i peer where
      "Suc k \<le> i" "i < Suc k + length ps" "peer \<in> set ps"
      "st = (if details then withClientDetails clients (newClientStatus X (clk i) peer)
           else newClientStatus X (clk i) peer)" by blast
    then show ?thesis by (intro exI [of _ i] exI [of _ peer]) simp
  qed
qed

lemma length_clientStatusLoop:
  "length (clientStatusLoop X clk details clients k peers) = length peers"
  by (induction peers arbitrary: k) (simp_all add: Let_def)

lemma clientStatus_Inr:
  assumes "clientStatus X w = Inr statuses"
  shows "\<exists>l :: Peer list. statuses = sort_Slice
           (clientStatusLoop X (W_clock w) (snd (registryOf w)) (fst (registryOf w)) 0 l)
           (\<lambda>a b. CS_LastHandshakeRelative a < CS_LastHandshakeRelative b)"
  using assms
  by (auto simp: clientStatus_def registryOf_def split: sum.splits)

lemma clientStatus_elem:
  assumes "clientStatus X w = Inr statuses" and "st \<in> set statuses"
  obtains i peer where
    "st = (if snd (registryOf w)
           then withClientDetails (fst (registryOf w)) (newClientStatus X (W_clock w i) peer)
           else newClientStatus X (W_clock w i) peer)"
proof -
  from clientStatus_Inr [OF assms(1)] obtain l where
    "statuses = sort_Slice
           (clientStatusLoop X (W_clock w) (snd (registryOf w)) (fst (registryOf w)) 0 l)
           (\<lambda>a b. CS_LastHandshakeRelative a < CS_LastHandshakeRelative b)"
    ..
  with assms(2) have
    "st \<in> set (clientStatusLoop X (W_clock w) (snd (registryOf w)) (fst (registryOf w)) 0 l)"
    by (simp add: set_sort_Slice)
  from clientStatusLoop_elem [OF this] show ?thesis using that by blast
qed

lemma newClientStatus_UNKNOWN:
  "CS_Name (newClientStatus X now peer) = ''UNKNOWN''"
  "CS_Email (newClientStatus X now peer) = ''UNKNOWN''"
  by (simp_all add: newClientStatus_def Let_def)

lemma New_registry: "New X (w\<lparr>W_ReadClients := r\<rparr>) = New X w"
  by (simp add: New_def Getenv_def Let_def cong: option.case_cong if_cong)

lemma clientStatus_alt:
  "clientStatus X w =
     (case New X w of
        Inl err \<Rightarrow> Inl err
      | Inr s \<Rightarrow>
          (case ListPeers X s (W_os w) of
             Inl err \<Rightarrow> Inl err
           | Inr l \<Rightarrow>
               Inr (sort_Slice
                      (clientStatusLoop X (W_clock w) (snd (registryOf w)) (fst (registryOf w)) 0
                         (Peers l))
                      (\<lambda>a b. CS_LastHandshakeRelative a < CS_LastHandshakeRelative b))))"
  by (simp add: clientStatus_def registryOf_def split: sum.splits)

lemma clientStatus_other_registry:
  assumes "clientStatus X (w\<lparr>W_ReadClients := r\<rparr>) = Inr statuses'"
  shows "\<exists>statuses. clientStatus X w = Inr statuses \<and> length statuses = length statuses'"
proof (cases "New X w")
  case (Inl err)
  with assms show ?thesis by (simp add: clientStatus_alt [of X "w\<lparr>W_ReadClients := r\<rparr>"] New_registry)
next
  case s: (Inr s)
  show ?thesis
  proof (cases "ListPeers X s (W_os w)")
    case (Inl err)
    with assms s show ?thesis
      by (simp add: clientStatus_alt [of X "w\<lparr>W_ReadClients := r\<rparr>"] New_registry)
  next
    case (Inr l)
    with assms s have "length statuses' = length (Peers l)"
      by (auto simp add: clientStatus_alt [of X "w\<lparr>W_ReadClients := r\<rparr>"] New_registry
          length_sort_Slice length_clientStatusLoop)
    moreover from Inr s have "\<exists>statuses. clientStatus X w = Inr statuses \<and> length statuses = length (Peers l)"
      by (simp add: clientStatus_alt [of X w] length_sort_Slice length_clientStatusLoop)
    ultimately show ?thesis by simp
  qed
qed

lemma clientStatusLoop_nth:
  "i < length peers \<Longrightarrow>
   clientStatusLoop X clk details clients k peers ! i
   = (if details then withClientDetails clients (newClientStatus X (clk (k + i)) (peers ! i))
      else newClientStatus X (clk (k + i)) (peers ! i))"
proof (induction peers arbitrary: k i)
  case Nil
  then show ?case by simp
next
  case (Cons p ps)
  show ?case
  proof (cases i)
    case 0
    then show ?thesis by (simp add: Let_def)
  next
    case (Suc j)
    with Cons.prems have "j < length ps" by simp
    from Cons.IH [OF this, of "Suc k"] Suc show ?thesis by (simp add: Let_def)
  qed
qed

lemma clientStatus_device:
  assumes "clientStatus X w = Inr statuses"
    and "New X w = Inr s"
    and "wg_Device X (W_os w) (deviceName s) = Inr dev"
  shows "statuses = sort_Slice
           (clientStatusLoop X (W_clock w) (snd (registryOf w)) (fst (registryOf w)) 0
              (map (peer2rpc X) (wgDevice_Peers dev)))
           (\<lambda>a b. CS_LastHandshakeRelative a < CS_LastHandshakeRelative b)"
  using assms by (simp add: clientStatus_alt ListPeers_def)

lemma loop_status_fields:
  assumes "k < length peers"
  shows "CS_PublicKey (clientStatusLoop X clk details clients 0 (map (peer2rpc X) peers) ! k)
           = Key_String X (wgPeer_PublicKey (peers ! k))"
    and "CS_LastHandshake (clientStatusLoop X clk details clients 0 (map (peer2rpc X) peers) ! k)
           = wgPeer_LastHandshakeTime (peers ! k)"
    and "CS_LastHandshakeRelative (clientStatusLoop X clk details clients 0 (map (peer2rpc X) peers) ! k)
           = time_Since (clk k) (wgPeer_LastHandshakeTime (peers ! k))"
    and "CS_Connected (clientStatusLoop X clk details clients 0 (map (peer2rpc X) peers) ! k)
           = (Minutes X (time_Since (clk k) (wgPeer_LastHandshakeTime (peers ! k))) < 3)"
  using assms
  by (simp_all add: clientStatusLoop_nth withClientDetails_fields newClientStatus_def Let_def
      peer2rpc_def)

lemma loop_status_UNKNOWN:
  assumes "k < length peers"
    and "details \<longrightarrow> Key_String X (wgPeer_PublicKey (peers ! k)) \<notin> Client_PublicKey ` set clients"
  shows "CS_Name (clientStatusLoop X clk details clients 0 (map (peer2rpc X) peers) ! k) = ''UNKNOWN''
       \<and> CS_Email (clientStatusLoop X clk details clients 0 (map (peer2rpc X) peers) ! k) = ''UNKNOWN''"
proof -
  let ?n = "newClientStatus X (clk k) (peer2rpc X (peers ! k))"
  have pk: "CS_PublicKey ?n = Key_String X (wgPeer_PublicKey (peers ! k))"
    by (simp add: newClientStatus_def Let_def peer2rpc_def)
  have "(if details then withClientDetails clients ?n else ?n) = ?n"
  proof (cases details)
    case True
    with assms(2) pk have "CS_PublicKey ?n \<notin> Client_PublicKey ` set clients" by simp
    then have "withClientDetails clients ?n = ?n" by (rule withClientDetails_no_match)
    with True show ?thesis by simp
  next
    case False
    then show ?thesis by simp
  qed
  moreover have "clientStatusLoop X clk details clients 0 (map (peer2rpc X) peers) ! k
                 = (if details then withClientDetails clients ?n else ?n)"
    using assms(1) by (simp add: clientStatusLoop_nth)
  ultimately have "clientStatusLoop X clk details clients 0 (map (peer2rpc X) peers) ! k = ?n"
    by (simp only:)
  then show ?thesis by (simp only: newClientStatus_UNKNOWN simp_thms)
qed

lemma demo_New: "New demoExt demoWorld = Inr demoServer"
  by code_simp

lemma demo_Device: "wg_Device demoExt (W_os demoWorld) (deviceName demoServer) = Inr demoDevice"
  by (simp add: demoExt_def demoServer_def)

text \<open>
  C2. For every peer returned by clientStatus, the Connected flag is true if and only
  if the time elapsed since that peer's last handshake is strictly less than 3 minutes.
  The statuses are those of the peers of the device, one for each: every status has the
  public key and the last handshake time of a peer of the device, its
  LastHandshakeRelative is the clock read for that peer minus that peer's last
  handshake (saturated at the ends of int64), and the peer at each position of the
  device has such a status, connected exactly when that difference is below 3 minutes.
  The code compares \<^verbatim>\<open>Minutes()\<close>, a \<^verbatim>\<open>float64\<close>, with 3; the rounding of the
  floating-point operations does not move the comparison.
\<close>

theorem connected_iff_recent_handshake:
  assumes "float64_rounding (float64 X)"
    and "clientStatus X w = Inr statuses"
    and "New X w = Inr s"
    and "wg_Device X (W_os w) (deviceName s) = Inr dev"
  shows "length statuses = length (wgDevice_Peers dev)
    \<and> (\<forall>st \<in> set statuses.
          (CS_Connected st \<longleftrightarrow> CS_LastHandshakeRelative st < 3 * Minute)
          \<and> (\<exists>k < length (wgDevice_Peers dev).
                CS_PublicKey st = Key_String X (wgPeer_PublicKey (wgDevice_Peers dev ! k))
                \<and> CS_LastHandshake st = wgPeer_LastHandshakeTime (wgDevice_Peers dev ! k)
                \<and> CS_LastHandshakeRelative st
                    = time_Since (W_clock w k) (wgPeer_LastHandshakeTime (wgDevice_Peers dev ! k))))
    \<and> (\<forall>k < length (wgDevice_Peers dev).
          \<exists>st \<in> set statuses.
             CS_PublicKey st = Key_String X (wgPeer_PublicKey (wgDevice_Peers dev ! k))
             \<and> CS_LastHandshake st = wgPeer_LastHandshakeTime (wgDevice_Peers dev ! k)
             \<and> CS_LastHandshakeRelative st
                 = time_Since (W_clock w k) (wgPeer_LastHandshakeTime (wgDevice_Peers dev ! k))
             \<and> (CS_Connected st \<longleftrightarrow>
                  time_Since (W_clock w k) (wgPeer_LastHandshakeTime (wgDevice_Peers dev ! k))
                    < 3 * Minute))"
proof -
  let ?peers = "wgDevice_Peers dev"
  let ?loop = "clientStatusLoop X (W_clock w) (snd (registryOf w)) (fst (registryOf w)) 0
              (map (peer2rpc X) ?peers)"
  have st: "statuses = sort_Slice ?loop
              (\<lambda>a b. CS_LastHandshakeRelative a < CS_LastHandshakeRelative b)"
    using assms(2-4) by (rule clientStatus_device)
  have len: "length ?loop = length ?peers" by (simp add: length_clientStatusLoop)
  have set: "set statuses = set ?loop" unfolding st by (rule set_sort_Slice)
  have 1: "length statuses = length ?peers"
    unfolding st by (simp add: length_sort_Slice length_clientStatusLoop)
  have fields: "CS_PublicKey (?loop ! k) = Key_String X (wgPeer_PublicKey (?peers ! k))
      \<and> CS_LastHandshake (?loop ! k) = wgPeer_LastHandshakeTime (?peers ! k)
      \<and> CS_LastHandshakeRelative (?loop ! k)
          = time_Since (W_clock w k) (wgPeer_LastHandshakeTime (?peers ! k))
      \<and> (CS_Connected (?loop ! k) \<longleftrightarrow>
            time_Since (W_clock w k) (wgPeer_LastHandshakeTime (?peers ! k)) < 3 * Minute)"
    if "k < length ?peers" for k
    using loop_status_fields [OF that, of X "W_clock w" "snd (registryOf w)" "fst (registryOf w)"]
    by (simp add: Minutes_less_3 [OF assms(1)])
  have 2: "(CS_Connected st \<longleftrightarrow> CS_LastHandshakeRelative st < 3 * Minute)
          \<and> (\<exists>k < length ?peers.
                CS_PublicKey st = Key_String X (wgPeer_PublicKey (?peers ! k))
                \<and> CS_LastHandshake st = wgPeer_LastHandshakeTime (?peers ! k)
                \<and> CS_LastHandshakeRelative st
                    = time_Since (W_clock w k) (wgPeer_LastHandshakeTime (?peers ! k)))"
    if "st \<in> set statuses" for st
  proof -
    from that set have "st \<in> set ?loop" by simp
    then obtain k where k: "k < length ?loop" and e: "st = ?loop ! k"
      by (auto simp: in_set_conv_nth)
    from k len have kp: "k < length ?peers" by simp
    from fields [OF kp] show ?thesis unfolding e using kp by auto
  qed
  have 3: "\<exists>st \<in> set statuses.
             CS_PublicKey st = Key_String X (wgPeer_PublicKey (?peers ! k))
             \<and> CS_LastHandshake st = wgPeer_LastHandshakeTime (?peers ! k)
             \<and> CS_LastHandshakeRelative st
                 = time_Since (W_clock w k) (wgPeer_LastHandshakeTime (?peers ! k))
             \<and> (CS_Connected st \<longleftrightarrow>
                  time_Since (W_clock w k) (wgPeer_LastHandshakeTime (?peers ! k)) < 3 * Minute)"
    if "k < length ?peers" for k
  proof -
    from that len have "?loop ! k \<in> set statuses" unfolding set by simp
    with fields [OF that] show ?thesis by blast
  qed
  from 1 2 3 show ?thesis by blast
qed

text \<open>
  The sample world: the peer whose handshake is a minute old, the second of the device,
  is reported connected.
\<close>

theorem connected_iff_recent_handshake_witness:
  "length [freshStatus, staleStatus] = length (wgDevice_Peers demoDevice)
   \<and> CS_Connected freshStatus
   \<and> CS_LastHandshakeRelative freshStatus < 3 * Minute
   \<and> (\<exists>st \<in> set [freshStatus, staleStatus].
         CS_PublicKey st = Key_String demoExt (wgPeer_PublicKey (wgDevice_Peers demoDevice ! 1))
         \<and> CS_LastHandshake st = wgPeer_LastHandshakeTime (wgDevice_Peers demoDevice ! 1)
         \<and> CS_LastHandshakeRelative st
             = time_Since (W_clock demoWorld 1)
                 (wgPeer_LastHandshakeTime (wgDevice_Peers demoDevice ! 1))
         \<and> (CS_Connected st \<longleftrightarrow>
               time_Since (W_clock demoWorld 1)
                 (wgPeer_LastHandshakeTime (wgDevice_Peers demoDevice ! 1)) < 3 * Minute))"
proof -
  have r: "float64_rounding (float64 demoExt)"
    by (simp add: demoExt_def float64_rounding_def)
  note t = connected_iff_recent_handshake [OF r demo_clientStatus demo_New demo_Device]
  have m: "freshStatus \<in> set [freshStatus, staleStatus]" by simp
  have c: "CS_Connected freshStatus" by (simp add: freshStatus_def)
  have k: "1 < length (wgDevice_Peers demoDevice)" by (simp add: demoDevice_def)
  from t have 1: "length [freshStatus, staleStatus] = length (wgDevice_Peers demoDevice)"
    by (rule conjunct1)
  from t m c have 2: "CS_LastHandshakeRelative freshStatus < 3 * Minute" by blast
  from t k have 3: "\<exists>st \<in> set [freshStatus, staleStatus].
         CS_PublicKey st = Key_String demoExt (wgPeer_PublicKey (wgDevice_Peers demoDevice ! 1))
         \<and> CS_LastHandshake st = wgPeer_LastHandshakeTime (wgDevice_Peers demoDevice ! 1)
         \<and> CS_LastHandshakeRelative st
             = time_Since (W_clock demoWorld 1)
                 (wgPeer_LastHandshakeTime (wgDevice_Peers demoDevice ! 1))
         \<and> (CS_Connected st \<longleftrightarrow>
               time_Since (W_clock demoWorld 1)
                 (wgPeer_LastHandshakeTime (wgDevice_Peers demoDevice ! 1)) < 3 * Minute)"
    by blast
  from 1 c 2 3 show ?thesis by (intro conjI)
qed

text \<open>
  C3. Every list returned successfully by clientStatus is sorted in ascending order of
  LastHandshakeRelative: for all positions i < j of the result, the time since the last
  handshake of element i is less than or equal to that of element j.
\<close>

theorem clientStatus_sorted:
  assumes "clientStatus X w = Inr statuses"
  shows "\<forall>i j. i < j \<and> j < length statuses \<longrightarrow>
           CS_LastHandshakeRelative (statuses ! i) \<le> CS_LastHandshakeRelative (statuses ! j)"
proof -
  from clientStatus_Inr [OF assms] obtain l where
    "statuses = sort_Slice
           (clientStatusLoop X (W_clock w) (snd (registryOf w)) (fst (registryOf w)) 0 l)
           (\<lambda>a b. CS_LastHandshakeRelative a < CS_LastHandshakeRelative b)"
    ..
  then have "sorted_wrt (\<lambda>a b. CS_LastHandshakeRelative a \<le> CS_LastHandshakeRelative b) statuses"
    by (simp add: sorted_sort_Slice)
  then show ?thesis by (auto simp: sorted_wrt_iff_nth_less)
qed

text \<open>
  The sample world: the device lists the stale peer first, the result lists it last.
\<close>

theorem clientStatus_sorted_witness:
  "clientStatus demoExt demoWorld = Inr [freshStatus, staleStatus]
   \<and> CS_LastHandshakeRelative ([freshStatus, staleStatus] ! 0)
       \<le> CS_LastHandshakeRelative ([freshStatus, staleStatus] ! 1)"
  using clientStatus_sorted [OF demo_clientStatus, THEN spec, of 0, THEN spec, of 1]
    demo_clientStatus by simp

text \<open>
  C7. In every successful clientStatus result, a peer whose public key has no match in
  the client registry has Name and Email equal to "UNKNOWN": every status carries the
  public key of a peer of the device, a status whose key is not in the registry is
  "UNKNOWN", and every peer of the device whose key is not in the registry has a status
  with its key, its last handshake and the names "UNKNOWN". When the registry cannot
  be read (ReadClients returns an error) the call succeeds wherever it succeeds with a
  readable registry, with as many statuses, all of them with Name and Email "UNKNOWN".
\<close>

theorem registry_miss_gives_UNKNOWN:
  "(clientStatus X w = Inr statuses \<and> st \<in> set statuses \<and> W_ReadClients w = Inr clients
      \<and> CS_PublicKey st \<notin> Client_PublicKey ` set clients
    \<longrightarrow> CS_Name st = ''UNKNOWN'' \<and> CS_Email st = ''UNKNOWN'')
   \<and> (clientStatus X w = Inr statuses \<and> New X w = Inr s
       \<and> wg_Device X (W_os w) (deviceName s) = Inr dev \<and> W_ReadClients w = Inr clients
    \<longrightarrow> (\<forall>st \<in> set statuses. \<exists>k < length (wgDevice_Peers dev).
            CS_PublicKey st = Key_String X (wgPeer_PublicKey (wgDevice_Peers dev ! k)))
        \<and> (\<forall>k < length (wgDevice_Peers dev).
              Key_String X (wgPeer_PublicKey (wgDevice_Peers dev ! k))
                \<notin> Client_PublicKey ` set clients
              \<longrightarrow> (\<exists>st \<in> set statuses.
                     CS_PublicKey st = Key_String X (wgPeer_PublicKey (wgDevice_Peers dev ! k))
                     \<and> CS_LastHandshake st = wgPeer_LastHandshakeTime (wgDevice_Peers dev ! k)
                     \<and> CS_LastHandshakeRelative st
                         = time_Since (W_clock w k)
                             (wgPeer_LastHandshakeTime (wgDevice_Peers dev ! k))
                     \<and> CS_Name st = ''UNKNOWN'' \<and> CS_Email st = ''UNKNOWN'')))
   \<and> (W_ReadClients w = Inl err \<and> clientStatus X (w\<lparr>W_ReadClients := Inr clients\<rparr>) = Inr statuses'
    \<longrightarrow> (\<exists>sts. clientStatus X w = Inr sts \<and> length sts = length statuses'
              \<and> (\<forall>s \<in> set sts. CS_Name s = ''UNKNOWN'' \<and> CS_Email s = ''UNKNOWN'')))"
proof -
  have p1: "CS_Name st = ''UNKNOWN'' \<and> CS_Email st = ''UNKNOWN''"
    if a: "clientStatus X w = Inr statuses \<and> st \<in> set statuses \<and> W_ReadClients w = Inr clients
      \<and> CS_PublicKey st \<notin> Client_PublicKey ` set clients"
  proof -
    from a have reg: "registryOf w = (clients, True)" by (simp add: registryOf_def)
    from a obtain i peer where
      st: "st = withClientDetails clients (newClientStatus X (W_clock w i) peer)"
      using clientStatus_elem [of X w statuses st] reg by auto
    have "CS_PublicKey (newClientStatus X (W_clock w i) peer) = CS_PublicKey st"
      unfolding st by (rule withClientDetails_fields(4) [symmetric])
    moreover from a have "CS_PublicKey st \<notin> Client_PublicKey ` set clients" by (elim conjE)
    ultimately have "CS_PublicKey (newClientStatus X (W_clock w i) peer)
                     \<notin> Client_PublicKey ` set clients"
      by simp
    then have "withClientDetails clients (newClientStatus X (W_clock w i) peer)
               = newClientStatus X (W_clock w i) peer"
      by (rule withClientDetails_no_match)
    then have "CS_Name st = CS_Name (newClientStatus X (W_clock w i) peer)"
      and "CS_Email st = CS_Email (newClientStatus X (W_clock w i) peer)"
      unfolding st by (simp_all only:)
    then show "CS_Name st = ''UNKNOWN'' \<and> CS_Email st = ''UNKNOWN''"
      by (simp only: newClientStatus_UNKNOWN)
  qed
  have p2: "(\<forall>st \<in> set statuses. \<exists>k < length (wgDevice_Peers dev).
            CS_PublicKey st = Key_String X (wgPeer_PublicKey (wgDevice_Peers dev ! k)))
        \<and> (\<forall>k < length (wgDevice_Peers dev).
              Key_String X (wgPeer_PublicKey (wgDevice_Peers dev ! k))
                \<notin> Client_PublicKey ` set clients
              \<longrightarrow> (\<exists>st \<in> set statuses.
                     CS_PublicKey st = Key_String X (wgPeer_PublicKey (wgDevice_Peers dev ! k))
                     \<and> CS_LastHandshake st = wgPeer_LastHandshakeTime (wgDevice_Peers dev ! k)
                     \<and> CS_LastHandshakeRelative st
                         = time_Since (W_clock w k)
                             (wgPeer_LastHandshakeTime (wgDevice_Peers dev ! k))
                     \<and> CS_Name st = ''UNKNOWN'' \<and> CS_Email st = ''UNKNOWN''))"
    if d: "clientStatus X w = Inr statuses \<and> New X w = Inr s
       \<and> wg_Device X (W_os w) (deviceName s) = Inr dev \<and> W_ReadClients w = Inr clients"
  proof -
    let ?peers = "wgDevice_Peers dev"
    let ?loop = "clientStatusLoop X (W_clock w) True clients 0 (map (peer2rpc X) ?peers)"
    from d have reg: "registryOf w = (clients, True)" by (simp add: registryOf_def)
    from d have "statuses = sort_Slice
           (clientStatusLoop X (W_clock w) (snd (registryOf w)) (fst (registryOf w)) 0
              (map (peer2rpc X) ?peers))
           (\<lambda>a b. CS_LastHandshakeRelative a < CS_LastHandshakeRelative b)"
      using clientStatus_device [of X w statuses s dev] by blast
    then have set: "set statuses = set ?loop" by (simp add: reg set_sort_Slice)
    have len: "length ?loop = length ?peers" by (simp add: length_clientStatusLoop)
    have a: "\<exists>k < length ?peers. CS_PublicKey st = Key_String X (wgPeer_PublicKey (?peers ! k))"
      if "st \<in> set statuses" for st
    proof -
      from that set obtain k where k: "k < length ?loop" and e: "st = ?loop ! k"
        by (auto simp: in_set_conv_nth)
      from k len have kp: "k < length ?peers" by simp
      from loop_status_fields(1) [OF kp, of X "W_clock w" True clients] kp
      show ?thesis unfolding e by blast
    qed
    have b: "\<exists>st \<in> set statuses.
                     CS_PublicKey st = Key_String X (wgPeer_PublicKey (?peers ! k))
                     \<and> CS_LastHandshake st = wgPeer_LastHandshakeTime (?peers ! k)
                     \<and> CS_LastHandshakeRelative st
                         = time_Since (W_clock w k) (wgPeer_LastHandshakeTime (?peers ! k))
                     \<and> CS_Name st = ''UNKNOWN'' \<and> CS_Email st = ''UNKNOWN''"
      if kp: "k < length ?peers"
        and nm: "Key_String X (wgPeer_PublicKey (?peers ! k)) \<notin> Client_PublicKey ` set clients"
      for k
    proof -
      from kp len have "?loop ! k \<in> set statuses" unfolding set by simp
      moreover note loop_status_fields(1,2,3) [OF kp, of X "W_clock w" True clients]
      moreover from nm have "True \<longrightarrow> Key_String X (wgPeer_PublicKey (?peers ! k))
                               \<notin> Client_PublicKey ` set clients" by simp
      note loop_status_UNKNOWN [OF kp this, of "W_clock w"]
      ultimately show ?thesis by blast
    qed
    from a b show ?thesis by blast
  qed
  have p3: "\<exists>sts. clientStatus X w = Inr sts \<and> length sts = length statuses'
              \<and> (\<forall>s \<in> set sts. CS_Name s = ''UNKNOWN'' \<and> CS_Email s = ''UNKNOWN'')"
    if b: "W_ReadClients w = Inl err \<and>
      clientStatus X (w\<lparr>W_ReadClients := Inr clients\<rparr>) = Inr statuses'"
  proof -
    from b have reg: "registryOf w = ([], False)" by (simp add: registryOf_def)
    from b obtain sts where sts: "clientStatus X w = Inr sts"
      and len: "length sts = length statuses'"
      using clientStatus_other_registry by blast
    have "CS_Name s = ''UNKNOWN'' \<and> CS_Email s = ''UNKNOWN''" if "s \<in> set sts" for s
    proof -
      from sts that obtain i peer where "s = newClientStatus X (W_clock w i) peer"
        using clientStatus_elem [of X w sts s] reg by auto
      then show ?thesis by (simp add: newClientStatus_UNKNOWN)
    qed
    with sts len show ?thesis by blast
  qed
  from p1 p2 p3 show ?thesis by blast
qed

text \<open>
  The sample world: the stale peer, the first of the device, is not in the registry;
  and with the registry unreadable both peers are reported, both as "UNKNOWN".
\<close>

theorem registry_miss_gives_UNKNOWN_witness:
  "(clientStatus demoExt demoWorld = Inr [freshStatus, staleStatus]
    \<and> staleStatus \<in> set [freshStatus, staleStatus]
    \<and> W_ReadClients demoWorld = Inr [demoClient]
    \<and> CS_PublicKey staleStatus \<notin> Client_PublicKey ` set [demoClient]
    \<and> CS_Name staleStatus = ''UNKNOWN'' \<and> CS_Email staleStatus = ''UNKNOWN'')
   \<and> (New demoExt demoWorld = Inr demoServer
    \<and> wg_Device demoExt (W_os demoWorld) (deviceName demoServer) = Inr demoDevice
    \<and> 0 < length (wgDevice_Peers demoDevice)
    \<and> Key_String demoExt (wgPeer_PublicKey (wgDevice_Peers demoDevice ! 0))
         \<notin> Client_PublicKey ` set [demoClient]
    \<and> (\<exists>st \<in> set [freshStatus, staleStatus].
          CS_PublicKey st = Key_String demoExt (wgPeer_PublicKey (wgDevice_Peers demoDevice ! 0))
          \<and> CS_LastHandshake st = wgPeer_LastHandshakeTime (wgDevice_Peers demoDevice ! 0)
          \<and> CS_LastHandshakeRelative st
              = time_Since (W_clock demoWorld 0)
                  (wgPeer_LastHandshakeTime (wgDevice_Peers demoDevice ! 0))
          \<and> CS_Name st = ''UNKNOWN'' \<and> CS_Email st = ''UNKNOWN''))
   \<and> (W_ReadClients brokenWorld = Inl ''open clients: no such file or directory''
    \<and> clientStatus demoExt (brokenWorld\<lparr>W_ReadClients := Inr [demoClient]\<rparr>)
        = Inr [freshStatus, staleStatus]
    \<and> (\<exists>sts. clientStatus demoExt brokenWorld = Inr sts
              \<and> length sts = length [freshStatus, staleStatus]
              \<and> (\<forall>s \<in> set sts. CS_Name s = ''UNKNOWN'' \<and> CS_Email s = ''UNKNOWN'')))"
proof -
  have w: "brokenWorld\<lparr>W_ReadClients := Inr [demoClient]\<rparr> = demoWorld"
    by (simp add: brokenWorld_def demoWorld_def)
  have 1: "W_ReadClients demoWorld = Inr [demoClient]" by (simp add: demoWorld_def)
  have 2: "CS_PublicKey staleStatus \<notin> Client_PublicKey ` set [demoClient]"
    by (simp add: staleStatus_def demoClient_def otherKeyText_def demoKeyText_def)
  have 3: "W_ReadClients brokenWorld = Inl ''open clients: no such file or directory''"
    by (simp add: brokenWorld_def)
  have 4: "clientStatus demoExt (brokenWorld\<lparr>W_ReadClients := Inr [demoClient]\<rparr>)
        = Inr [freshStatus, staleStatus]" using w demo_clientStatus by simp
  have 5: "staleStatus \<in> set [freshStatus, staleStatus]" by simp
  have 6: "0 < length (wgDevice_Peers demoDevice)" by (simp add: demoDevice_def)
  have 7: "Key_String demoExt (wgPeer_PublicKey (wgDevice_Peers demoDevice ! 0))
         \<notin> Client_PublicKey ` set [demoClient]"
    by code_simp
  have e1: "CS_Name staleStatus = ''UNKNOWN'' \<and> CS_Email staleStatus = ''UNKNOWN''"
    using registry_miss_gives_UNKNOWN
            [of demoExt demoWorld "[freshStatus, staleStatus]" staleStatus "[demoClient]",
             THEN conjunct1]
          demo_clientStatus 1 2 5 by blast
  have e2: "\<exists>st \<in> set [freshStatus, staleStatus].
          CS_PublicKey st = Key_String demoExt (wgPeer_PublicKey (wgDevice_Peers demoDevice ! 0))
          \<and> CS_LastHandshake st = wgPeer_LastHandshakeTime (wgDevice_Peers demoDevice ! 0)
          \<and> CS_LastHandshakeRelative st
              = time_Since (W_clock demoWorld 0)
                  (wgPeer_LastHandshakeTime (wgDevice_Peers demoDevice ! 0))
          \<and> CS_Name st = ''UNKNOWN'' \<and> CS_Email st = ''UNKNOWN''"
    using registry_miss_gives_UNKNOWN
            [of demoExt demoWorld "[freshStatus, staleStatus]" _ "[demoClient]" demoServer
                demoDevice,
             THEN conjunct2, THEN conjunct1]
          demo_clientStatus demo_New demo_Device 1 6 7 by blast
  have e3: "\<exists>sts. clientStatus demoExt brokenWorld = Inr sts
              \<and> length sts = length [freshStatus, staleStatus]
              \<and> (\<forall>s \<in> set sts. CS_Name s = ''UNKNOWN'' \<and> CS_Email s = ''UNKNOWN'')"
    using registry_miss_gives_UNKNOWN
            [of demoExt brokenWorld _ _ "[demoClient]" _ _
                "''open clients: no such file or directory''" "[freshStatus, staleStatus]",
             THEN conjunct2, THEN conjunct2]
          3 4 by blast
  from demo_clientStatus demo_New demo_Device 1 2 3 4 5 6 7 e1 e2 e3 show ?thesis
    by blast
qed

subsection \<open>Validation and the peer operations\<close>

lemma validateAllowedIPs_Some:
  "validateAllowedIPs X ips = Some e \<Longrightarrow> \<exists>m. m \<noteq> '''' \<and> e = RpcError (InvalidParams m None)"
  by (induction ips) (auto simp: rangeNotValid_def split: sum.splits)

lemma validateAllowedIPs_None_iff:
  "validateAllowedIPs X ips = None \<longleftrightarrow> (\<forall>a \<in> set ips. \<not> isl (ParseCIDR X a))"
  by (induction ips) (auto split: sum.splits)

lemma validateAllowedIPs_ConfigureDevice:
  "validateAllowedIPs (X\<lparr>wg_ConfigureDevice := f\<rparr>) ips = validateAllowedIPs X ips"
  by (induction ips) (auto simp: rangeNotValid_def split: sum.splits)

lemma validateAddPeerRequest_ConfigureDevice:
  "validateAddPeerRequest (X\<lparr>wg_ConfigureDevice := f\<rparr>) os req = validateAddPeerRequest X os req"
  by (simp add: validateAddPeerRequest_def validateAllowedIPs_ConfigureDevice
      cong: option.case_cong sum.case_cong if_cong)

lemma validateRemovePeerRequest_ConfigureDevice:
  "validateRemovePeerRequest (X\<lparr>wg_ConfigureDevice := f\<rparr>) req = validateRemovePeerRequest X req"
  by (simp add: validateRemovePeerRequest_def cong: option.case_cong sum.case_cong if_cong)

lemma validateAddPeerRequest_Some:
  assumes "validateAddPeerRequest X os req = Some e"
  shows "\<exists>m. m \<noteq> '''' \<and> e = RpcError (InvalidParams m None)"
proof (cases req)
  case None
  with assms show ?thesis by (auto simp: validateAddPeerRequest_def)
next
  case (Some r)
  show ?thesis
  proof (cases "validateAllowedIPs X (Add_AllowedIPs r) = Some e")
    case True
    then show ?thesis by (rule validateAllowedIPs_Some)
  next
    case False
    with assms Some show ?thesis
      by (auto simp: validateAddPeerRequest_def split: if_splits sum.splits option.splits)
  qed
qed

lemma validateRemovePeerRequest_Some:
  "validateRemovePeerRequest X req = Some e \<Longrightarrow> \<exists>m. m \<noteq> '''' \<and> e = RpcError (InvalidParams m None)"
  by (auto simp: validateRemovePeerRequest_def split: if_splits sum.splits option.splits)


lemma AddPeer_invalid:
  "validateAddPeerRequest X os req = Some e \<Longrightarrow> AddPeer (X\<lparr>wg_ConfigureDevice := f\<rparr>) s req os = (Inl e, os)"
  by (simp add: AddPeer_def validateAddPeerRequest_ConfigureDevice)

lemma RemovePeer_invalid:
  "validateRemovePeerRequest X req = Some e \<Longrightarrow> RemovePeer (X\<lparr>wg_ConfigureDevice := f\<rparr>) s req os = (Inl e, os)"
  by (simp add: RemovePeer_def validateRemovePeerRequest_ConfigureDevice)

lemma validateAddPeerRequest_None:
  assumes "validateAddPeerRequest X os (Some r) = None"
  shows "length (Add_PublicKey r) = 44"
    and "\<not> isl (ParseKey X (Add_PublicKey r))"
    and "Add_PresharedKey r = '''' \<or> length (Add_PresharedKey r) = 44"
    and "Add_PresharedKey r = '''' \<or> \<not> isl (ParseKey X (Add_PresharedKey r))"
    and "Add_Endpoint r = '''' \<or> \<not> isl (ResolveUDPAddr X os (Add_Endpoint r))"
    and "Add_PersistentKeepAlive r = '''' \<or> \<not> isl (ParseDuration X (Add_PersistentKeepAlive r))"
    and "\<forall>a \<in> set (Add_AllowedIPs r). \<not> isl (ParseCIDR X a)"
  using assms
  by (auto simp: validateAddPeerRequest_def validateAllowedIPs_None_iff
      split: if_splits sum.splits option.splits)

lemma AddPeer_rejects:
  assumes "validateAddPeerRequest X os req \<noteq> None"
  shows "\<exists>m. \<forall>f. AddPeer (X\<lparr>wg_ConfigureDevice := f\<rparr>) s req os
                 = (Inl (RpcError (InvalidParams m None)), os)"
proof -
  from assms obtain e where e: "validateAddPeerRequest X os req = Some e" by auto
  from validateAddPeerRequest_Some [OF e] obtain m where "e = RpcError (InvalidParams m None)"
    by blast
  with AddPeer_invalid [OF e] show ?thesis by auto
qed



lemma findPeer_no_match:
  "\<forall>p \<in> set peers. wgPeer_PublicKey p \<noteq> k \<Longrightarrow> findPeer X k peers = \<lparr>Get_Peer = None\<rparr>"
  by (induction peers) auto





subsection \<open>Claims on the peer operations\<close>

text \<open>
  C1. For every AddPeerRequest and every RemovePeerRequest that passes validation and
  has the ValidateOnly flag set, AddPeer and RemovePeer return without error (the empty
  response \<^verbatim>\<open>&CfgPeerResponse{}\<close>, whose OK is false) and leave the state as it was,
  whatever ConfigureDevice would do: ConfigureDevice is not called.
\<close>

theorem validate_only_no_mutation:
  "(validateAddPeerRequest X os (Some ra) = None \<and> Add_ValidateOnly ra
      \<longrightarrow> (\<forall>f. AddPeer (X\<lparr>wg_ConfigureDevice := f\<rparr>) s (Some ra) os = (Inr \<lparr>OK = False\<rparr>, os)))
   \<and> (validateRemovePeerRequest X (Some rr) = None \<and> Remove_ValidateOnly rr
      \<longrightarrow> (\<forall>f. RemovePeer (X\<lparr>wg_ConfigureDevice := f\<rparr>) s (Some rr) os = (Inr \<lparr>OK = False\<rparr>, os)))"
  by (simp add: AddPeer_def RemovePeer_def validateAddPeerRequest_ConfigureDevice
      validateRemovePeerRequest_ConfigureDevice)

text \<open>
  The sample world: a valid request to add and one to remove a peer, both with
  ValidateOnly set, leave the count of ConfigureDevice calls at 0.
\<close>

theorem validate_only_no_mutation_witness:
  "(validateAddPeerRequest demoExt 0 (Some (demoAdd\<lparr>Add_ValidateOnly := True\<rparr>)) = None
    \<and> Add_ValidateOnly (demoAdd\<lparr>Add_ValidateOnly := True\<rparr>)
    \<and> AddPeer demoExt demoServer (Some (demoAdd\<lparr>Add_ValidateOnly := True\<rparr>)) 0
        = (Inr \<lparr>OK = False\<rparr>, 0))
   \<and> (validateRemovePeerRequest demoExt (Some (demoRemove\<lparr>Remove_ValidateOnly := True\<rparr>)) = None
    \<and> Remove_ValidateOnly (demoRemove\<lparr>Remove_ValidateOnly := True\<rparr>)
    \<and> RemovePeer demoExt demoServer (Some (demoRemove\<lparr>Remove_ValidateOnly := True\<rparr>)) 0
        = (Inr \<lparr>OK = False\<rparr>, 0))"
proof -
  have v1: "validateAddPeerRequest demoExt 0 (Some (demoAdd\<lparr>Add_ValidateOnly := True\<rparr>)) = None"
    by code_simp
  have v2: "validateRemovePeerRequest demoExt (Some (demoRemove\<lparr>Remove_ValidateOnly := True\<rparr>)) = None"
    by code_simp
  have same: "demoExt\<lparr>wg_ConfigureDevice := wg_ConfigureDevice demoExt\<rparr> = demoExt" by simp
  note t = validate_only_no_mutation
             [where X = demoExt and os = 0 and ra = "demoAdd\<lparr>Add_ValidateOnly := True\<rparr>"
                and s = demoServer and rr = "demoRemove\<lparr>Remove_ValidateOnly := True\<rparr>"]
  from t v1 have "\<forall>f. AddPeer (demoExt\<lparr>wg_ConfigureDevice := f\<rparr>) demoServer
                        (Some (demoAdd\<lparr>Add_ValidateOnly := True\<rparr>)) 0 = (Inr \<lparr>OK = False\<rparr>, 0)"
    by simp
  then have a: "AddPeer (demoExt\<lparr>wg_ConfigureDevice := wg_ConfigureDevice demoExt\<rparr>) demoServer
                        (Some (demoAdd\<lparr>Add_ValidateOnly := True\<rparr>)) 0 = (Inr \<lparr>OK = False\<rparr>, 0)"
    by (rule spec)
  from t v2 have "\<forall>f. RemovePeer (demoExt\<lparr>wg_ConfigureDevice := f\<rparr>) demoServer
                        (Some (demoRemove\<lparr>Remove_ValidateOnly := True\<rparr>)) 0 = (Inr \<lparr>OK = False\<rparr>, 0)"
    by simp
  then have r: "RemovePeer (demoExt\<lparr>wg_ConfigureDevice := wg_ConfigureDevice demoExt\<rparr>) demoServer
                        (Some (demoRemove\<lparr>Remove_ValidateOnly := True\<rparr>)) 0 = (Inr \<lparr>OK = False\<rparr>, 0)"
    by (rule spec)
  from a r v1 v2 show ?thesis unfolding same by simp
qed




text \<open>
  C5. For every AddPeerRequest or RemovePeerRequest (also a nil one) that fails
  validation, the operation returns the error of the validation, which is an
  InvalidParams error (code -32602) with a message that is not empty; the state is
  unchanged, whatever ConfigureDevice would do: ConfigureDevice is not called.
\<close>

theorem validation_failure_is_InvalidParams:
  "(validateAddPeerRequest X os ra = Some e
      \<longrightarrow> (\<forall>f. AddPeer (X\<lparr>wg_ConfigureDevice := f\<rparr>) s ra os = (Inl e, os))
          \<and> (\<exists>err. e = RpcError err \<and> Code err = - 32602 \<and> Message err \<noteq> ''''
                   \<and> err = InvalidParams (Message err) None))
   \<and> (validateRemovePeerRequest X rr = Some e'
      \<longrightarrow> (\<forall>f. RemovePeer (X\<lparr>wg_ConfigureDevice := f\<rparr>) s rr os = (Inl e', os))
          \<and> (\<exists>err. e' = RpcError err \<and> Code err = - 32602 \<and> Message err \<noteq> ''''
                   \<and> err = InvalidParams (Message err) None))"
proof -
  have "\<exists>err. x = RpcError err \<and> Code err = - 32602 \<and> Message err \<noteq> ''''
                   \<and> err = InvalidParams (Message err) None"
    if "\<exists>m. m \<noteq> '''' \<and> x = RpcError (InvalidParams m None)" for x
    using that by (auto simp: InvalidParams_def)
  then show ?thesis
    using validateAddPeerRequest_Some [of X os ra e] validateRemovePeerRequest_Some [of X rr e']
      AddPeer_invalid [of X os ra e] RemovePeer_invalid [of X rr e']
    by blast
qed

text \<open>
  The sample world: a range that is no CIDR, and a nil request.
\<close>

theorem validation_failure_is_InvalidParams_witness:
  "(validateAddPeerRequest demoExt 0 (Some (demoAdd\<lparr>Add_AllowedIPs := [''10.0.0.300/32'']\<rparr>))
      = Some (RpcError (InvalidParams
                ''range 10.0.0.300/32 is not valid: invalid CIDR address'' None))
    \<and> AddPeer demoExt demoServer (Some (demoAdd\<lparr>Add_AllowedIPs := [''10.0.0.300/32'']\<rparr>)) 0
      = (Inl (RpcError (InvalidParams
                ''range 10.0.0.300/32 is not valid: invalid CIDR address'' None)), 0))
   \<and> (validateRemovePeerRequest demoExt None
      = Some (RpcError (InvalidParams ''request body required'' None))
    \<and> RemovePeer demoExt demoServer None 0
      = (Inl (RpcError (InvalidParams ''request body required'' None)), 0))"
proof -
  have v1: "validateAddPeerRequest demoExt 0 (Some (demoAdd\<lparr>Add_AllowedIPs := [''10.0.0.300/32'']\<rparr>))
      = Some (RpcError (InvalidParams
                ''range 10.0.0.300/32 is not valid: invalid CIDR address'' None))"
    by code_simp
  have v2: "validateRemovePeerRequest demoExt None
      = Some (RpcError (InvalidParams ''request body required'' None))"
    by code_simp
  have same: "demoExt\<lparr>wg_ConfigureDevice := wg_ConfigureDevice demoExt\<rparr> = demoExt" by simp
  note t = validation_failure_is_InvalidParams
             [where X = demoExt and os = 0 and s = demoServer
                and ra = "Some (demoAdd\<lparr>Add_AllowedIPs := [''10.0.0.300/32'']\<rparr>)"
                and e = "RpcError (InvalidParams
                           ''range 10.0.0.300/32 is not valid: invalid CIDR address'' None)"
                and rr = None
                and e' = "RpcError (InvalidParams ''request body required'' None)"]
  from t v1 have "\<forall>f. AddPeer (demoExt\<lparr>wg_ConfigureDevice := f\<rparr>) demoServer
      (Some (demoAdd\<lparr>Add_AllowedIPs := [''10.0.0.300/32'']\<rparr>)) 0
      = (Inl (RpcError (InvalidParams
                ''range 10.0.0.300/32 is not valid: invalid CIDR address'' None)), 0)"
    by blast
  then have a: "AddPeer (demoExt\<lparr>wg_ConfigureDevice := wg_ConfigureDevice demoExt\<rparr>) demoServer
      (Some (demoAdd\<lparr>Add_AllowedIPs := [''10.0.0.300/32'']\<rparr>)) 0
      = (Inl (RpcError (InvalidParams
                ''range 10.0.0.300/32 is not valid: invalid CIDR address'' None)), 0)"
    by (rule spec)
  from t v2 have "\<forall>f. RemovePeer (demoExt\<lparr>wg_ConfigureDevice := f\<rparr>) demoServer None 0
      = (Inl (RpcError (InvalidParams ''request body required'' None)), 0)"
    by blast
  then have r: "RemovePeer (demoExt\<lparr>wg_ConfigureDevice := wg_ConfigureDevice demoExt\<rparr>) demoServer None 0
      = (Inl (RpcError (InvalidParams ''request body required'' None)), 0)"
    by (rule spec)
  from a r v1 v2 show ?thesis unfolding same by blast
qed

text \<open>
  C6. For every AddPeerRequest with a malformed CIDR in AllowedIPs, or a non-empty
  Endpoint that does not resolve, or a non-empty PersistentKeepAlive that does not
  parse as a duration, AddPeer returns an InvalidParams error, with the state unchanged
  and ConfigureDevice not called.
\<close>

theorem malformed_request_rejected:
  assumes "(\<exists>a \<in> set (Add_AllowedIPs r). isl (ParseCIDR X a))
           \<or> (Add_Endpoint r \<noteq> '''' \<and> isl (ResolveUDPAddr X os (Add_Endpoint r)))
           \<or> (Add_PersistentKeepAlive r \<noteq> '''' \<and> isl (ParseDuration X (Add_PersistentKeepAlive r)))"
  shows "\<exists>m. \<forall>f. AddPeer (X\<lparr>wg_ConfigureDevice := f\<rparr>) s (Some r) os
                 = (Inl (RpcError (InvalidParams m None)), os)"
proof -
  have "validateAddPeerRequest X os (Some r) \<noteq> None"
    using assms validateAddPeerRequest_None(5,6,7) [of X os r] by blast
  then show ?thesis by (rule AddPeer_rejects)
qed

text \<open>
  The sample world: the second of two allowed IPs is malformed.
\<close>

theorem malformed_request_rejected_witness:
  "(\<exists>a \<in> set (Add_AllowedIPs (demoAdd\<lparr>Add_AllowedIPs := [''10.0.0.2/32'', ''10.0.0.300/32'']\<rparr>)).
       isl (ParseCIDR demoExt a))
   \<and> (\<exists>m. \<forall>f. AddPeer (demoExt\<lparr>wg_ConfigureDevice := f\<rparr>) demoServer
                  (Some (demoAdd\<lparr>Add_AllowedIPs := [''10.0.0.2/32'', ''10.0.0.300/32'']\<rparr>)) 0
                = (Inl (RpcError (InvalidParams m None)), 0))"
proof -
  have h: "\<exists>a \<in> set (Add_AllowedIPs (demoAdd\<lparr>Add_AllowedIPs := [''10.0.0.2/32'', ''10.0.0.300/32'']\<rparr>)).
       isl (ParseCIDR demoExt a)"
    by (simp add: demoExt_def)
  then have "(\<exists>a \<in> set (Add_AllowedIPs (demoAdd\<lparr>Add_AllowedIPs := [''10.0.0.2/32'', ''10.0.0.300/32'']\<rparr>)).
       isl (ParseCIDR demoExt a))
    \<or> (Add_Endpoint (demoAdd\<lparr>Add_AllowedIPs := [''10.0.0.2/32'', ''10.0.0.300/32'']\<rparr>) \<noteq> ''''
       \<and> isl (ResolveUDPAddr demoExt 0
                 (Add_Endpoint (demoAdd\<lparr>Add_AllowedIPs := [''10.0.0.2/32'', ''10.0.0.300/32'']\<rparr>))))
    \<or> (Add_PersistentKeepAlive (demoAdd\<lparr>Add_AllowedIPs := [''10.0.0.2/32'', ''10.0.0.300/32'']\<rparr>) \<noteq> ''''
       \<and> isl (ParseDuration demoExt
                 (Add_PersistentKeepAlive (demoAdd\<lparr>Add_AllowedIPs := [''10.0.0.2/32'', ''10.0.0.300/32'']\<rparr>))))"
    by (rule disjI1)
  from malformed_request_rejected [OF this, of demoServer] h show ?thesis by (rule_tac conjI)
qed

text \<open>
  C10. For every GetPeerRequest with a well-formed public key of 44 characters (one
  that \<^verbatim>\<open>wgtypes.ParseKey\<close> accepts) that is the key of no peer of the device, GetPeer
  returns the empty GetPeerResponse (a nil Peer) and no error.
\<close>

theorem GetPeer_unknown_key_empty_response:
  assumes "length (Get_PublicKey r) = 44"
    and "ParseKey X (Get_PublicKey r) = Inr k"
    and "wg_Device X os (deviceName s) = Inr dev"
    and "\<forall>p \<in> set (wgDevice_Peers dev). wgPeer_PublicKey p \<noteq> k"
  shows "GetPeer X s (Some r) os = Inr \<lparr>Get_Peer = None\<rparr>"
proof -
  from assms(1) have "Get_PublicKey r \<noteq> ''''" by auto
  with assms(1,2) have "validateGetPeerRequest X (Some r) = None"
    by (simp add: validateGetPeerRequest_def)
  then show ?thesis
    using assms(2,3) findPeer_no_match [OF assms(4)] by (simp add: GetPeer_def)
qed

text \<open>
  The sample world: the key of a stranger, well formed and on no peer of the device.
\<close>

theorem GetPeer_unknown_key_empty_response_witness:
  "length (Get_PublicKey demoGet) = 44
   \<and> ParseKey demoExt (Get_PublicKey demoGet) = Inr strangerKey
   \<and> wg_Device demoExt 0 (deviceName demoServer) = Inr demoDevice
   \<and> wgDevice_Peers demoDevice = [stalePeer, freshPeer]
   \<and> wgPeer_PublicKey stalePeer \<noteq> strangerKey
   \<and> wgPeer_PublicKey freshPeer \<noteq> strangerKey
   \<and> GetPeer demoExt demoServer (Some demoGet) 0 = Inr \<lparr>Get_Peer = None\<rparr>"
proof -
  have 1: "length (Get_PublicKey demoGet) = 44" by code_simp
  have 2: "ParseKey demoExt (Get_PublicKey demoGet) = Inr strangerKey" by code_simp
  have 3: "wg_Device demoExt 0 (deviceName demoServer) = Inr demoDevice"
    by (simp add: demoExt_def demoServer_def)
  have 4: "wgDevice_Peers demoDevice = [stalePeer, freshPeer]" by (simp add: demoDevice_def)
  have 5: "wgPeer_PublicKey stalePeer \<noteq> strangerKey" by code_simp
  have 6: "wgPeer_PublicKey freshPeer \<noteq> strangerKey" by code_simp
  have 7: "\<forall>p \<in> set (wgDevice_Peers demoDevice). wgPeer_PublicKey p \<noteq> strangerKey"
    using 4 5 6 by simp
  from GetPeer_unknown_key_empty_response [OF 1 2 3 7] 1 2 3 4 5 6 show ?thesis by blast
qed

text \<open>
  C9. Enabeled() is true if and only if the environment variable WG_DEVICE_NAME is set
  to a non-empty value; UpdatePeer calls updatePeerCall when Enabeled() is true and the
  fallback core.UpdatePeer otherwise.
\<close>

theorem Enabeled_iff_and_dispatch:
  "(Enabeled w \<longleftrightarrow> (\<exists>v. W_environ w ''WG_DEVICE_NAME'' = Some v \<and> v \<noteq> ''''))
   \<and> UpdatePeer X core_UpdatePeer w peer enable
       = (if Enabeled w then updatePeerCall X w peer enable else core_UpdatePeer peer enable w)"
  by (auto simp: Enabeled_def Getenv_def UpdatePeer_def split: option.splits)

text \<open>
  The sample world: WG_DEVICE_NAME is \<open>wg0\<close>, so UpdatePeer is updatePeerCall.
\<close>

theorem Enabeled_iff_and_dispatch_witness:
  "Enabeled demoWorld
   \<and> UpdatePeer demoExt (\<lambda>peer enable w. (Inr \<lparr>Resp_OK = False\<rparr>, w)) demoWorld
        \<lparr>ModelPeer_AllowedIPs = [''10.0.0.2/32''], ModelPeer_PublicKey = strangerKeyText,
         ModelPeer_PresharedKey = ''''\<rparr> True
      = updatePeerCall demoExt demoWorld
        \<lparr>ModelPeer_AllowedIPs = [''10.0.0.2/32''], ModelPeer_PublicKey = strangerKeyText,
         ModelPeer_PresharedKey = ''''\<rparr> True"
proof -
  have "\<exists>v. W_environ demoWorld ''WG_DEVICE_NAME'' = Some v \<and> v \<noteq> ''''"
    by (simp add: demoWorld_def)
  with Enabeled_iff_and_dispatch [of demoWorld demoExt "\<lambda>peer enable w. (Inr \<lparr>Resp_OK = False\<rparr>, w)"
         "\<lparr>ModelPeer_AllowedIPs = [''10.0.0.2/32''], ModelPeer_PublicKey = strangerKeyText,
         ModelPeer_PresharedKey = ''''\<rparr>" True]
  show ?thesis by simp
qed

subsection \<open>Claims on the error envelope\<close>

text \<open>
  C8 (as amended). Each fixed constructor produces an Error with its standard JSON-RPC
  code (ParseError -32700, InvalidRequest -32600, MethodNotFound -32601,
  InvalidParams -32602, InternalError -32603) and hands message and data through
  unchanged. ServerError performs no range check: its Error carries exactly the code
  it was given, so the code lies between -32099 and -32000 exactly when the caller's
  argument does.
\<close>

theorem error_constructor_codes:
  "ParseError m d = \<lparr>Code = - 32700, Message = m, Data = d\<rparr>
   \<and> InvalidRequest m d = \<lparr>Code = - 32600, Message = m, Data = d\<rparr>
   \<and> MethodNotFound m d = \<lparr>Code = - 32601, Message = m, Data = d\<rparr>
   \<and> InvalidParams m d = \<lparr>Code = - 32602, Message = m, Data = d\<rparr>
   \<and> InternalError m d = \<lparr>Code = - 32603, Message = m, Data = d\<rparr>
   \<and> ServerError c m d = \<lparr>Code = c, Message = m, Data = d\<rparr>
   \<and> ((- 32099 \<le> Code (ServerError c m d) \<and> Code (ServerError c m d) \<le> - 32000)
        = (- 32099 \<le> c \<and> c \<le> - 32000))"
  by (simp add: ParseError_def InvalidRequest_def MethodNotFound_def InvalidParams_def
      InternalError_def ServerError_def)

text \<open>
  C8 as stated fails: ServerError accepts any code, for instance 0, which is outside
  the range -32099 .. -32000.
\<close>

theorem ServerError_code_out_of_range:
  "\<not> (- 32099 \<le> Code (ServerError 0 ''boom'' None) \<and> Code (ServerError 0 ''boom'' None) \<le> - 32000)"
  by (simp add: ServerError_def)

end
